theory Spec2Isabelle
  imports Main
begin

section \<open>BigInt arithmetic and string rendering\<close>

text \<open>
  The handlers compute on JavaScript \<^verbatim>\<open>bigint\<close> values, modelled as \<^typ>\<open>int\<close>.
  BigInt division and remainder truncate toward zero and raise a RangeError on a zero
  divisor; a loop that does not return is reported as \<open>NonTermination\<close>; the price
  library rejects a tick outside its range with an invariant failure.
\<close>

datatype error = RangeError | InvariantError | NonTermination

definition bigint_quot :: "int \<Rightarrow> int \<Rightarrow> int" where
  "bigint_quot a b = sgn a * sgn b * (\<bar>a\<bar> div \<bar>b\<bar>)"

definition bigint_div :: "int \<Rightarrow> int \<Rightarrow> error + int" where
  "bigint_div a b = (if b = 0 then Inl RangeError else Inr (bigint_quot a b))"

definition bigint_rem :: "int \<Rightarrow> int \<Rightarrow> error + int" where
  "bigint_rem a b = (if b = 0 then Inl RangeError else Inr (sgn a * (\<bar>a\<bar> mod \<bar>b\<bar>)))"

definition Q128 :: int where
  "Q128 = 2 ^ 128"

definition digit_char :: "nat \<Rightarrow> char" where
  "digit_char d = ''0123456789'' ! d"

fun show_nat :: "nat \<Rightarrow> string" where
  "show_nat n = (if n < 10 then [digit_char n] else show_nat (n div 10) @ [digit_char (n mod 10)])"

declare show_nat.simps [simp del]

definition show_int :: "int \<Rightarrow> string" where
  "show_int i = (if i < 0 then CHR ''-'' # show_nat (nat (- i)) else show_nat (nat i))"

definition lower_char :: "char \<Rightarrow> char" where
  "lower_char c =
     (if (65::nat) \<le> of_char c \<and> (of_char c :: nat) \<le> 90
      then char_of ((of_char c :: nat) + 32) else c)"

definition toLowerCase :: "string \<Rightarrow> string" where
  "toLowerCase s = map lower_char s"

section \<open>Fee-growth helpers (swap.ts, liquidityUtils)\<close>

definition calculateFees :: "int \<Rightarrow> int \<Rightarrow> int" where
  "calculateFees amount feeTier = bigint_quot (amount * feeTier) 1000000"

definition abs_bigint :: "int \<Rightarrow> int" where
  "abs_bigint v = (if v < 0 then - v else v)"

definition updateFeeGrowth :: "int \<Rightarrow> int \<Rightarrow> int \<Rightarrow> error + int" where
  "updateFeeGrowth currentFeeGrowth fees liquidity =
     (if liquidity = 0 then Inr currentFeeGrowth
      else case bigint_div (fees * Q128) liquidity of
             Inl e \<Rightarrow> Inl e
           | Inr q \<Rightarrow> Inr (currentFeeGrowth + q))"

definition flipFeeGrowthOutside :: "int \<Rightarrow> int \<Rightarrow> int" where
  "flipFeeGrowthOutside feeGrowthGlobal feeGrowthOutside = feeGrowthGlobal - feeGrowthOutside"

definition getFeeGrowthInside :: "int \<Rightarrow> int \<Rightarrow> int \<Rightarrow> int \<Rightarrow> int \<Rightarrow> int \<Rightarrow> int" where
  "getFeeGrowthInside feeGrowthGlobal feeGrowthOutsideLower feeGrowthOutsideUpper
       tickLower tickUpper currentTick =
     (let feeGrowthBelow =
            (if currentTick \<ge> tickLower then feeGrowthOutsideLower
             else feeGrowthGlobal - feeGrowthOutsideLower);
          feeGrowthAbove =
            (if currentTick < tickUpper then feeGrowthOutsideUpper
             else feeGrowthGlobal - feeGrowthOutsideUpper)
      in feeGrowthGlobal - feeGrowthBelow - feeGrowthAbove)"

definition calculateAccruedFees :: "int \<Rightarrow> int \<Rightarrow> int \<Rightarrow> int" where
  "calculateAccruedFees liquidity feeGrowthInside feeGrowthInsideLast =
     bigint_quot (liquidity * (feeGrowthInside - feeGrowthInsideLast)) (2 ^ 128)"

section \<open>Token amounts from a liquidity delta\<close>

text \<open>
  \<^verbatim>\<open>TickMath.getSqrtRatioAtTick\<close>, \<^verbatim>\<open>SqrtPriceMath.getAmount0Delta\<close> and
  \<^verbatim>\<open>SqrtPriceMath.getAmount1Delta\<close> belong to the external price library; they are
  parameters of the model. Each may fail (an out-of-range tick, a zero divisor).
\<close>

record sdk =
  getSqrtRatioAtTick :: "int \<Rightarrow> error + int"
  getAmount0Delta :: "int \<Rightarrow> int \<Rightarrow> int \<Rightarrow> bool \<Rightarrow> error + int"
  getAmount1Delta :: "int \<Rightarrow> int \<Rightarrow> int \<Rightarrow> bool \<Rightarrow> error + int"

record amounts =
  amount0 :: int
  amount1 :: int
  amount0Abs :: int
  amount1Abs :: int

definition bnd :: "error + 'a \<Rightarrow> ('a \<Rightarrow> error + 'b) \<Rightarrow> error + 'b" where
  "bnd m f = (case m of Inl e \<Rightarrow> Inl e | Inr v \<Rightarrow> f v)"

definition calculateTokenAmounts :: "sdk \<Rightarrow> int \<Rightarrow> int \<Rightarrow> int \<Rightarrow> int \<Rightarrow> error + amounts" where
  "calculateTokenAmounts lib liquidityDelta tickLower tickUpper sqrtPriceX96 =
     (let isAddingLiquidity = liquidityDelta > 0;
          liquidityAbs = (if liquidityDelta < 0 then - liquidityDelta else liquidityDelta)
      in bnd (getSqrtRatioAtTick lib tickLower) (\<lambda>sqrtPriceLowerX96.
         bnd (getSqrtRatioAtTick lib tickUpper) (\<lambda>sqrtPriceUpperX96.
         bnd (if sqrtPriceX96 \<le> sqrtPriceLowerX96 then
                bnd (getAmount0Delta lib sqrtPriceLowerX96 sqrtPriceUpperX96 liquidityAbs False)
                  (\<lambda>a0. Inr (a0, 0))
              else if sqrtPriceX96 \<ge> sqrtPriceUpperX96 then
                bnd (getAmount1Delta lib sqrtPriceLowerX96 sqrtPriceUpperX96 liquidityAbs False)
                  (\<lambda>a1. Inr (0, a1))
              else
                bnd (getAmount0Delta lib sqrtPriceX96 sqrtPriceUpperX96 liquidityAbs False)
                  (\<lambda>a0.
                bnd (getAmount1Delta lib sqrtPriceLowerX96 sqrtPriceX96 liquidityAbs False)
                  (\<lambda>a1. Inr (a0, a1))))
           (\<lambda>(amount0Calculated, amount1Calculated).
              Inr \<lparr> amount0 = (if isAddingLiquidity then amount0Calculated else - amount0Calculated),
                    amount1 = (if isAddingLiquidity then amount1Calculated else - amount1Calculated),
                    amount0Abs = amount0Calculated,
                    amount1Abs = amount1Calculated \<rparr>))))"

section \<open>Tick-crossing scanner (swap.ts)\<close>

definition tickId :: "string \<Rightarrow> int \<Rightarrow> string" where
  "tickId poolId tickIdx = poolId @ ''#'' @ show_int tickIdx"

partial_function (option) ascendingLoop :: "int \<Rightarrow> int \<Rightarrow> int \<Rightarrow> int list \<Rightarrow> int list option" where
  "ascendingLoop tick endTick tickSpacing ticksToCheck =
     (if tick \<le> endTick
      then ascendingLoop (tick + tickSpacing) endTick tickSpacing (ticksToCheck @ [tick])
      else Some ticksToCheck)"

partial_function (option) descendingLoop :: "int \<Rightarrow> int \<Rightarrow> int \<Rightarrow> int list \<Rightarrow> int list option" where
  "descendingLoop tick endTick tickSpacing ticksToCheck =
     (if tick \<ge> endTick
      then descendingLoop (tick - tickSpacing) endTick tickSpacing (ticksToCheck @ [tick])
      else Some ticksToCheck)"

definition getInitializedTicksCrossed ::
    "string \<Rightarrow> int \<Rightarrow> int \<Rightarrow> int \<Rightarrow> (string \<Rightarrow> 'a option) \<Rightarrow> error + int list" where
  "getInitializedTicksCrossed poolId oldTick newTick tickSpacing ticks =
     (if newTick = oldTick then Inr []
      else
        let ascending = newTick > oldTick;
            startTick = (if ascending then oldTick + 1 else oldTick);
            endTick = (if ascending then newTick else newTick + 1)
        in bnd (bigint_rem startTick tickSpacing) (\<lambda>remainder.
           let currentTick =
                 (if remainder \<noteq> 0
                  then (if ascending then startTick + (tickSpacing - remainder)
                        else startTick - remainder)
                  else startTick)
           in case (if ascending then ascendingLoop currentTick endTick tickSpacing []
                    else descendingLoop currentTick endTick tickSpacing []) of
                None \<Rightarrow> Inl NonTermination
              | Some ticksToCheck \<Rightarrow>
                  Inr (List.map_filter
                         (\<lambda>tickIdx. case ticks (tickId poolId tickIdx) of
                                      Some t \<Rightarrow> Some tickIdx
                                    | None \<Rightarrow> None)
                         ticksToCheck)))"


section \<open>Entities and the entity store\<close>

text \<open>
  Entities are the rows of the generated schema, with the field names of the source
  (\<open>id\<close> and \<open>open\<close> carry a prime). The three pool interval tables share
  one row type, as do the two token interval tables. \<open>Pool.tick\<close> is optional: the
  handlers read it as \<^verbatim>\<open>pool.tick ?? 0n\<close>.
\<close>

record Pool =
  id' :: string
  chainId :: int
  poolId :: string
  name :: string
  createdAtTimestamp :: int
  createdAtBlockNumber :: int
  token0_id :: string
  token1_id :: string
  feeTier :: int
  tickSpacing :: int
  hooks :: string
  liquidity :: int
  sqrtPrice :: int
  sqrtPriceX96 :: int
  tick :: "int option"
  observationIndex :: int
  feeGrowthGlobal0X128 :: int
  feeGrowthGlobal1X128 :: int
  volume0 :: int
  volume1 :: int
  fees0 :: int
  fees1 :: int
  tvl0 :: int
  tvl1 :: int
  txCount :: int
  swapCount :: int
  modifyLiquidityCount :: int
  positionCount :: int
  activePositionCount :: int
  lpCount :: int

record Token =
  id' :: string
  chainId :: int
  symbol :: string
  name :: string
  decimals :: int
  totalSupply :: int
  volume :: int
  txCount :: int
  poolCount :: int
  swapCount :: int
  modifyLiquidityCount :: int
  positionCount :: int
  lpCount :: int
  tvl :: int
  whitelistPools :: "string list"

record Tick =
  id' :: string
  chainId :: int
  poolId :: string
  tickIdx :: int
  pool_id :: string
  liquidityGross :: int
  liquidityNet :: int
  price0 :: int
  price1 :: int
  feeGrowthOutside0X128 :: int
  feeGrowthOutside1X128 :: int
  positionCount :: int
  createdAtTimestamp :: int
  createdAtBlockNumber :: int

record Position =
  id' :: string
  chainId :: int
  owner :: string
  liquidityProvider_id :: string
  pool_id :: string
  token0_id :: string
  token1_id :: string
  tickLower :: int
  tickUpper :: int
  liquidity :: int
  deposited0 :: int
  deposited1 :: int
  withdrawn0 :: int
  withdrawn1 :: int
  fees0 :: int
  fees1 :: int
  feeGrowthInside0LastX128 :: int
  feeGrowthInside1LastX128 :: int
  modifyLiquidityCount :: int
  transaction_id :: string
  createdAtTimestamp :: int
  createdAtBlockNumber :: int

record LiquidityProvider =
  id' :: string
  chainId :: int
  address :: string
  deposited0 :: int
  deposited1 :: int
  withdrawn0 :: int
  withdrawn1 :: int
  fees0 :: int
  fees1 :: int
  positionCount :: int
  modifyLiquidityCount :: int
  createdAtTimestamp :: int
  createdAtBlockNumber :: int

record HookStats =
  id' :: string
  chainId :: int
  poolCount :: int
  swapCount :: int
  firstPoolCreatedAt :: int
  volume0 :: int
  volume1 :: int
  fees0 :: int
  fees1 :: int
  tvl0 :: int
  tvl1 :: int

record Transaction =
  id' :: string
  chainId :: int
  blockNumber :: int
  timestamp :: int
  gasUsed :: int
  gasPrice :: int

record Swap =
  id' :: string
  chainId :: int
  transaction_id :: string
  timestamp :: int
  pool_id :: string
  token0_id :: string
  token1_id :: string
  sender :: string
  recipient :: string
  origin :: string
  amount0 :: int
  amount1 :: int
  tick :: int
  sqrtPriceX96 :: int
  logIndex :: int

record ModifyLiquidity =
  id' :: string
  chainId :: int
  transaction_id :: string
  timestamp :: int
  pool_id :: string
  token0_id :: string
  token1_id :: string
  sender :: string
  origin :: string
  amount :: int
  amount0 :: int
  amount1 :: int
  tickLower :: int
  tickUpper :: int
  logIndex :: int

record PoolIntervalData =
  id' :: string
  chainId :: int
  startTimestamp :: int
  pool_id :: string
  volume0 :: int
  volume1 :: int
  fees0 :: int
  fees1 :: int
  tvl0 :: int
  tvl1 :: int
  txCount :: int
  swapCount :: int
  modifyLiquidityCount :: int
  open' :: int
  high :: int
  low :: int
  close :: int
  liquidity :: int
  sqrtPriceX96 :: int
  tick :: int

record TokenIntervalData =
  id' :: string
  chainId :: int
  startTimestamp :: int
  token_id :: string
  volume :: int
  txCount :: int
  swapCount :: int
  modifyLiquidityCount :: int

text \<open>
  The handler context: one table per entity type. \<open>get\<close> is a lookup by key;
  \<open>set\<close> stores a row under the row's own \<open>id\<close>.
\<close>

record handlerContext =
  Pools :: "string \<rightharpoonup> Pool"
  Tokens :: "string \<rightharpoonup> Token"
  Ticks :: "string \<rightharpoonup> Tick"
  Positions :: "string \<rightharpoonup> Position"
  LiquidityProviders :: "string \<rightharpoonup> LiquidityProvider"
  HookStatsTable :: "string \<rightharpoonup> HookStats"
  Transactions :: "string \<rightharpoonup> Transaction"
  Swaps :: "string \<rightharpoonup> Swap"
  ModifyLiquidities :: "string \<rightharpoonup> ModifyLiquidity"
  PoolDayDatas :: "string \<rightharpoonup> PoolIntervalData"
  PoolHourDatas :: "string \<rightharpoonup> PoolIntervalData"
  Pool5MinuteDatas :: "string \<rightharpoonup> PoolIntervalData"
  TokenDayDatas :: "string \<rightharpoonup> TokenIntervalData"
  TokenHourDatas :: "string \<rightharpoonup> TokenIntervalData"

definition Pool_set :: "Pool \<Rightarrow> handlerContext \<Rightarrow> handlerContext" where
  "Pool_set e context = context\<lparr> Pools := (Pools context)(Pool.id' e \<mapsto> e) \<rparr>"

definition Token_set :: "Token \<Rightarrow> handlerContext \<Rightarrow> handlerContext" where
  "Token_set e context = context\<lparr> Tokens := (Tokens context)(Token.id' e \<mapsto> e) \<rparr>"

definition Tick_set :: "Tick \<Rightarrow> handlerContext \<Rightarrow> handlerContext" where
  "Tick_set e context = context\<lparr> Ticks := (Ticks context)(Tick.id' e \<mapsto> e) \<rparr>"

definition Position_set :: "Position \<Rightarrow> handlerContext \<Rightarrow> handlerContext" where
  "Position_set e context = context\<lparr> Positions := (Positions context)(Position.id' e \<mapsto> e) \<rparr>"

definition LiquidityProvider_set :: "LiquidityProvider \<Rightarrow> handlerContext \<Rightarrow> handlerContext" where
  "LiquidityProvider_set e context =
     context\<lparr> LiquidityProviders := (LiquidityProviders context)(LiquidityProvider.id' e \<mapsto> e) \<rparr>"

definition HookStats_set :: "HookStats \<Rightarrow> handlerContext \<Rightarrow> handlerContext" where
  "HookStats_set e context =
     context\<lparr> HookStatsTable := (HookStatsTable context)(HookStats.id' e \<mapsto> e) \<rparr>"

definition Transaction_set :: "Transaction \<Rightarrow> handlerContext \<Rightarrow> handlerContext" where
  "Transaction_set e context =
     context\<lparr> Transactions := (Transactions context)(Transaction.id' e \<mapsto> e) \<rparr>"

definition Swap_set :: "Swap \<Rightarrow> handlerContext \<Rightarrow> handlerContext" where
  "Swap_set e context = context\<lparr> Swaps := (Swaps context)(Swap.id' e \<mapsto> e) \<rparr>"

definition ModifyLiquidity_set :: "ModifyLiquidity \<Rightarrow> handlerContext \<Rightarrow> handlerContext" where
  "ModifyLiquidity_set e context =
     context\<lparr> ModifyLiquidities := (ModifyLiquidities context)(ModifyLiquidity.id' e \<mapsto> e) \<rparr>"

definition PoolDayData_set :: "PoolIntervalData \<Rightarrow> handlerContext \<Rightarrow> handlerContext" where
  "PoolDayData_set e context =
     context\<lparr> PoolDayDatas := (PoolDayDatas context)(PoolIntervalData.id' e \<mapsto> e) \<rparr>"

definition PoolHourData_set :: "PoolIntervalData \<Rightarrow> handlerContext \<Rightarrow> handlerContext" where
  "PoolHourData_set e context =
     context\<lparr> PoolHourDatas := (PoolHourDatas context)(PoolIntervalData.id' e \<mapsto> e) \<rparr>"

definition Pool5MinuteData_set :: "PoolIntervalData \<Rightarrow> handlerContext \<Rightarrow> handlerContext" where
  "Pool5MinuteData_set e context =
     context\<lparr> Pool5MinuteDatas := (Pool5MinuteDatas context)(PoolIntervalData.id' e \<mapsto> e) \<rparr>"

definition TokenDayData_set :: "TokenIntervalData \<Rightarrow> handlerContext \<Rightarrow> handlerContext" where
  "TokenDayData_set e context =
     context\<lparr> TokenDayDatas := (TokenDayDatas context)(TokenIntervalData.id' e \<mapsto> e) \<rparr>"

definition TokenHourData_set :: "TokenIntervalData \<Rightarrow> handlerContext \<Rightarrow> handlerContext" where
  "TokenHourData_set e context =
     context\<lparr> TokenHourDatas := (TokenHourDatas context)(TokenIntervalData.id' e \<mapsto> e) \<rparr>"


section \<open>Events\<close>

record Event =
  chainId :: int
  params_id :: string
  block_timestamp :: int
  block_number :: int
  transaction_hash :: string
  transaction_from :: "string option"
  logIndex :: int

record ModifyLiquidityEvent = Event +
  sender :: string
  tickLower :: int
  tickUpper :: int
  liquidityDelta :: int

record SwapEvent = Event +
  sender :: string
  amount0 :: int
  amount1 :: int
  sqrtPriceX96 :: int
  liquidity :: int
  tick :: int

record DonateEvent = Event +
  sender :: string
  amount0 :: int
  amount1 :: int

definition zeroAddress :: string where
  "zeroAddress = ''0x0000000000000000000000000000000000000000''"

definition orZero :: "int option \<Rightarrow> int" where
  "orZero v = (case v of None \<Rightarrow> 0 | Some t \<Rightarrow> t)"

definition eventPoolId :: "'a Event_scheme \<Rightarrow> string" where
  "eventPoolId event = show_int (Event.chainId event) @ ''_'' @ params_id event"

definition eventOrigin :: "'a Event_scheme \<Rightarrow> string" where
  "eventOrigin event = (case transaction_from event of None \<Rightarrow> [] | Some a \<Rightarrow> toLowerCase a)"


section \<open>Transaction and liquidity-provider rows\<close>

definition getOrCreateTransaction ::
    "'a Event_scheme \<Rightarrow> handlerContext \<Rightarrow> Transaction \<times> handlerContext" where
  "getOrCreateTransaction event context =
     (let txHash = transaction_hash event;
          blockNumber = block_number event;
          timestamp = block_timestamp event;
          gasPrice = 0;
          chainId = Event.chainId event;
          txId = show_int chainId @ ''_'' @ txHash;
          transaction =
            (case Transactions context txId of
               Some txRO \<Rightarrow> txRO
             | None \<Rightarrow> \<lparr> Transaction.id' = txId, Transaction.chainId = chainId,
                         Transaction.blockNumber = 0, Transaction.timestamp = 0,
                         Transaction.gasUsed = 0, Transaction.gasPrice = 0 \<rparr>);
          transaction = transaction
            \<lparr> Transaction.blockNumber := blockNumber, Transaction.timestamp := timestamp,
              Transaction.gasUsed := 0, Transaction.gasPrice := gasPrice \<rparr>
      in (transaction,
          Transaction_set transaction context))"

definition getOrCreateLiquidityProvider ::
    "string \<Rightarrow> ModifyLiquidityEvent \<Rightarrow> handlerContext \<Rightarrow> LiquidityProvider \<times> handlerContext" where
  "getOrCreateLiquidityProvider poolId' event context =
     (let chainId = Event.chainId event;
          address = ModifyLiquidityEvent.sender event;
          timestamp = block_timestamp event;
          blockNumber = block_number event;
          lpId = show_int chainId @ ''_'' @ poolId' @ ''-'' @ toLowerCase address
      in case LiquidityProviders context lpId of
           Some lpRO \<Rightarrow> (lpRO, context)
         | None \<Rightarrow>
             (let newLP = \<lparr> LiquidityProvider.id' = lpId,
                             LiquidityProvider.chainId = chainId,
                             LiquidityProvider.address = toLowerCase address,
                             LiquidityProvider.deposited0 = 0,
                             LiquidityProvider.deposited1 = 0,
                             LiquidityProvider.withdrawn0 = 0,
                             LiquidityProvider.withdrawn1 = 0,
                             LiquidityProvider.fees0 = 0,
                             LiquidityProvider.fees1 = 0,
                             LiquidityProvider.positionCount = 0,
                             LiquidityProvider.modifyLiquidityCount = 0,
                             LiquidityProvider.createdAtTimestamp = timestamp,
                             LiquidityProvider.createdAtBlockNumber = blockNumber \<rparr>
              in (newLP,
                  LiquidityProvider_set newLP context)))"

definition createTick :: "string \<Rightarrow> int \<Rightarrow> string \<Rightarrow> string \<Rightarrow> int \<Rightarrow> int \<Rightarrow> int \<Rightarrow> Tick" where
  "createTick tickId' tickIdx' poolId' poolIdString chainId' timestamp' blockNumber' =
     \<lparr> Tick.id' = tickId', Tick.chainId = chainId', Tick.poolId = poolIdString,
       Tick.tickIdx = tickIdx', Tick.pool_id = poolId',
       Tick.liquidityGross = 0, Tick.liquidityNet = 0, Tick.price0 = 0, Tick.price1 = 0,
       Tick.feeGrowthOutside0X128 = 0, Tick.feeGrowthOutside1X128 = 0,
       Tick.positionCount = 0,
       Tick.createdAtTimestamp = timestamp', Tick.createdAtBlockNumber = blockNumber' \<rparr>"

definition createPosition ::
    "string \<Rightarrow> string \<Rightarrow> string \<Rightarrow> string \<Rightarrow> string \<Rightarrow> int \<Rightarrow> int \<Rightarrow> string \<Rightarrow> int \<Rightarrow> int
       \<Rightarrow> string \<Rightarrow> int \<Rightarrow> Position" where
  "createPosition positionId owner' poolId' token0Id token1Id tickLower' tickUpper'
       transactionId timestamp' blockNumber' liquidityProviderId chainId' =
     \<lparr> Position.id' = positionId, Position.chainId = chainId',
       Position.owner = toLowerCase owner',
       Position.liquidityProvider_id = liquidityProviderId,
       Position.pool_id = poolId', Position.token0_id = token0Id, Position.token1_id = token1Id,
       Position.tickLower = tickLower', Position.tickUpper = tickUpper',
       Position.liquidity = 0,
       Position.deposited0 = 0, Position.deposited1 = 0,
       Position.withdrawn0 = 0, Position.withdrawn1 = 0,
       Position.fees0 = 0, Position.fees1 = 0,
       Position.feeGrowthInside0LastX128 = 0, Position.feeGrowthInside1LastX128 = 0,
       Position.modifyLiquidityCount = 0,
       Position.transaction_id = transactionId,
       Position.createdAtTimestamp = timestamp', Position.createdAtBlockNumber = blockNumber' \<rparr>"

section \<open>Interval buckets (intervalUpdates)\<close>

text \<open>
  The three pool updaters differ in the period and in the \<open>liquidity\<close> and
  \<open>sqrtPriceX96\<close> a fresh bucket starts with; \<open>newPoolIntervalData\<close> is the object
  literal they build and \<open>touchPoolIntervalData\<close> the assignments they share.
\<close>

definition newPoolIntervalData :: "string \<Rightarrow> int \<Rightarrow> Pool \<Rightarrow> int \<Rightarrow> int \<Rightarrow> PoolIntervalData" where
  "newPoolIntervalData bucketId startUnix pool liquidity0 sqrtPrice0 =
     \<lparr> PoolIntervalData.id' = bucketId,
       PoolIntervalData.chainId = Pool.chainId pool,
       PoolIntervalData.startTimestamp = startUnix,
       PoolIntervalData.pool_id = Pool.id' pool,
       PoolIntervalData.volume0 = 0, PoolIntervalData.volume1 = 0,
       PoolIntervalData.fees0 = 0, PoolIntervalData.fees1 = 0,
       PoolIntervalData.tvl0 = 0, PoolIntervalData.tvl1 = 0,
       PoolIntervalData.txCount = 0, PoolIntervalData.swapCount = 0,
       PoolIntervalData.modifyLiquidityCount = 0,
       PoolIntervalData.open' = Pool.sqrtPriceX96 pool,
       PoolIntervalData.high = Pool.sqrtPriceX96 pool,
       PoolIntervalData.low = Pool.sqrtPriceX96 pool,
       PoolIntervalData.close = Pool.sqrtPriceX96 pool,
       PoolIntervalData.liquidity = liquidity0,
       PoolIntervalData.sqrtPriceX96 = sqrtPrice0,
       PoolIntervalData.tick = orZero (Pool.tick pool) \<rparr>"

definition touchPoolIntervalData :: "Pool \<Rightarrow> PoolIntervalData \<Rightarrow> PoolIntervalData" where
  "touchPoolIntervalData pool d =
     (let d = (if Pool.sqrtPriceX96 pool > PoolIntervalData.high d
               then d\<lparr> PoolIntervalData.high := Pool.sqrtPriceX96 pool \<rparr> else d);
          d = (if Pool.sqrtPriceX96 pool < PoolIntervalData.low d
               then d\<lparr> PoolIntervalData.low := Pool.sqrtPriceX96 pool \<rparr> else d)
      in d\<lparr> PoolIntervalData.liquidity := Pool.liquidity pool,
            PoolIntervalData.sqrtPriceX96 := Pool.sqrtPriceX96 pool,
            PoolIntervalData.close := Pool.sqrtPriceX96 pool,
            PoolIntervalData.tick := orZero (Pool.tick pool),
            PoolIntervalData.tvl0 := Pool.tvl0 pool,
            PoolIntervalData.tvl1 := Pool.tvl1 pool,
            PoolIntervalData.txCount := PoolIntervalData.txCount d + 1 \<rparr>)"

definition updatePoolDayData :: "int \<Rightarrow> Pool \<Rightarrow> handlerContext \<Rightarrow> PoolIntervalData \<times> handlerContext" where
  "updatePoolDayData timestamp' pool context =
     (let dayId = timestamp' div 86400;
          dayStartTimestamp = dayId * 86400;
          dayPoolId = Pool.id' pool @ ''-'' @ show_int dayId;
          poolDayData =
            (case PoolDayDatas context dayPoolId of
               Some poolDayDataRO \<Rightarrow> poolDayDataRO
             | None \<Rightarrow> newPoolIntervalData dayPoolId dayStartTimestamp pool
                         (Pool.liquidity pool) (Pool.sqrtPriceX96 pool));
          poolDayData = touchPoolIntervalData pool poolDayData
      in (poolDayData,
          PoolDayData_set poolDayData context))"

definition updatePool5MinuteData :: "int \<Rightarrow> Pool \<Rightarrow> handlerContext \<Rightarrow> PoolIntervalData \<times> handlerContext" where
  "updatePool5MinuteData timestamp' pool context =
     (let fiveMinuteIndex = timestamp' div 300;
          fiveMinuteStartUnix = fiveMinuteIndex * 300;
          fiveMinutePoolId = Pool.id' pool @ ''-'' @ show_int fiveMinuteIndex;
          pool5MinuteData =
            (case Pool5MinuteDatas context fiveMinutePoolId of
               Some pool5MinuteDataRO \<Rightarrow> pool5MinuteDataRO
             | None \<Rightarrow> newPoolIntervalData fiveMinutePoolId fiveMinuteStartUnix pool 0 0);
          pool5MinuteData = touchPoolIntervalData pool pool5MinuteData
      in (pool5MinuteData,
          Pool5MinuteData_set pool5MinuteData context))"

definition updatePoolHourData :: "int \<Rightarrow> Pool \<Rightarrow> handlerContext \<Rightarrow> PoolIntervalData \<times> handlerContext" where
  "updatePoolHourData timestamp' pool context =
     (let hourIndex = timestamp' div 3600;
          hourStartUnix = hourIndex * 3600;
          hourPoolId = Pool.id' pool @ ''-'' @ show_int hourIndex;
          poolHourData =
            (case PoolHourDatas context hourPoolId of
               Some poolHourDataRO \<Rightarrow> poolHourDataRO
             | None \<Rightarrow> newPoolIntervalData hourPoolId hourStartUnix pool 0 0);
          poolHourData = touchPoolIntervalData pool poolHourData
      in (poolHourData,
          PoolHourData_set poolHourData context))"

definition newTokenIntervalData :: "string \<Rightarrow> int \<Rightarrow> Token \<Rightarrow> TokenIntervalData" where
  "newTokenIntervalData bucketId startUnix token =
     \<lparr> TokenIntervalData.id' = bucketId,
       TokenIntervalData.chainId = Token.chainId token,
       TokenIntervalData.startTimestamp = startUnix,
       TokenIntervalData.token_id = Token.id' token,
       TokenIntervalData.volume = 0, TokenIntervalData.txCount = 0,
       TokenIntervalData.swapCount = 0, TokenIntervalData.modifyLiquidityCount = 0 \<rparr>"

definition updateTokenDayData :: "int \<Rightarrow> Token \<Rightarrow> handlerContext \<Rightarrow> TokenIntervalData \<times> handlerContext" where
  "updateTokenDayData timestamp' token context =
     (let dayId = timestamp' div 86400;
          dayStartTimestamp = dayId * 86400;
          tokenDayId = Token.id' token @ ''-'' @ show_int dayId;
          tokenDayData =
            (case TokenDayDatas context tokenDayId of
               Some tokenDayDataRO \<Rightarrow> tokenDayDataRO
             | None \<Rightarrow> newTokenIntervalData tokenDayId dayStartTimestamp token);
          tokenDayData = tokenDayData
            \<lparr> TokenIntervalData.txCount := TokenIntervalData.txCount tokenDayData + 1 \<rparr>
      in (tokenDayData,
          TokenDayData_set tokenDayData context))"

definition updateTokenHourData :: "int \<Rightarrow> Token \<Rightarrow> handlerContext \<Rightarrow> TokenIntervalData \<times> handlerContext" where
  "updateTokenHourData timestamp' token context =
     (let hourIndex = timestamp' div 3600;
          hourStartTimestamp = hourIndex * 3600;
          tokenHourID = Token.id' token @ ''-'' @ show_int hourIndex;
          tokenHourData =
            (case TokenHourDatas context tokenHourID of
               Some tokenHourDataRO \<Rightarrow> tokenHourDataRO
             | None \<Rightarrow> newTokenIntervalData tokenHourID hourStartTimestamp token);
          tokenHourData = tokenHourData
            \<lparr> TokenIntervalData.txCount := TokenIntervalData.txCount tokenHourData + 1 \<rparr>
      in (tokenHourData,
          TokenHourData_set tokenHourData context))"


section \<open>Donate handler\<close>

definition Donate_handler :: "DonateEvent \<Rightarrow> handlerContext \<Rightarrow> error + handlerContext" where
  "Donate_handler event context =
     (let poolId = eventPoolId event
      in case Pools context poolId of
           None \<Rightarrow> Inr context
         | Some poolRO \<Rightarrow>
      (case Tokens context (Pool.token0_id poolRO) of
           None \<Rightarrow> Inr context
         | Some token0RO \<Rightarrow>
      (case Tokens context (Pool.token1_id poolRO) of
           None \<Rightarrow> Inr context
         | Some token1RO \<Rightarrow>
      (let token0 = token0RO;
           token1 = token1RO;
           pool = poolRO;
           timestamp = block_timestamp event;
           amount0 = DonateEvent.amount0 event;
           amount1 = DonateEvent.amount1 event;
           pool = pool\<lparr> Pool.tvl0 := Pool.tvl0 pool + amount0 \<rparr>;
           pool = pool\<lparr> Pool.tvl1 := Pool.tvl1 pool + amount1 \<rparr>;
           pool = pool\<lparr> Pool.txCount := Pool.txCount pool + 1 \<rparr>
       in bnd (if Pool.liquidity pool > 0 then
                 bnd (bigint_div (amount0 * Q128) (Pool.liquidity pool)) (\<lambda>growth0.
                 bnd (bigint_div (amount1 * Q128) (Pool.liquidity pool)) (\<lambda>growth1.
                 Inr (pool\<lparr> Pool.feeGrowthGlobal0X128 := Pool.feeGrowthGlobal0X128 pool + growth0,
                             Pool.feeGrowthGlobal1X128 := Pool.feeGrowthGlobal1X128 pool + growth1,
                             Pool.fees0 := Pool.fees0 pool + amount0,
                             Pool.fees1 := Pool.fees1 pool + amount1 \<rparr>)))
               else Inr pool)
          (\<lambda>pool.
           let token0 = token0\<lparr> Token.tvl := Token.tvl token0 + amount0,
                                 Token.txCount := Token.txCount token0 + 1 \<rparr>;
               token1 = token1\<lparr> Token.tvl := Token.tvl token1 + amount1,
                                 Token.txCount := Token.txCount token1 + 1 \<rparr>;
               context =
                 (if Pool.hooks pool \<noteq> zeroAddress then
                    (case HookStatsTable context
                            (show_int (Event.chainId event) @ ''_'' @ Pool.hooks pool) of
                       None \<Rightarrow> context
                     | Some hookStatsRO \<Rightarrow>
                         HookStats_set
                           (hookStatsRO\<lparr> HookStats.fees0 := HookStats.fees0 hookStatsRO + amount0,
                                          HookStats.fees1 := HookStats.fees1 hookStatsRO + amount1,
                                          HookStats.tvl0 := HookStats.tvl0 hookStatsRO + amount0,
                                          HookStats.tvl1 := HookStats.tvl1 hookStatsRO + amount1 \<rparr>)
                           context)
                  else context);
               (transaction, context) = getOrCreateTransaction event context;
               (poolDayData, context) = updatePoolDayData timestamp pool context;
               (poolHourData, context) = updatePoolHourData timestamp pool context;
               (pool5MinuteData, context) = updatePool5MinuteData timestamp pool context;
               (token0DayData, context) = updateTokenDayData timestamp token0 context;
               (token1DayData, context) = updateTokenDayData timestamp token1 context;
               (token0HourData, context) = updateTokenHourData timestamp token0 context;
               (token1HourData, context) = updateTokenHourData timestamp token1 context;
               poolDayData = poolDayData
                 \<lparr> PoolIntervalData.fees0 := PoolIntervalData.fees0 poolDayData + amount0,
                   PoolIntervalData.fees1 := PoolIntervalData.fees1 poolDayData + amount1 \<rparr>;
               poolHourData = poolHourData
                 \<lparr> PoolIntervalData.fees0 := PoolIntervalData.fees0 poolHourData + amount0,
                   PoolIntervalData.fees1 := PoolIntervalData.fees1 poolHourData + amount1 \<rparr>;
               pool5MinuteData = pool5MinuteData
                 \<lparr> PoolIntervalData.fees0 := PoolIntervalData.fees0 pool5MinuteData + amount0,
                   PoolIntervalData.fees1 := PoolIntervalData.fees1 pool5MinuteData + amount1 \<rparr>;
               context = PoolDayData_set poolDayData context;
               context = PoolHourData_set poolHourData context;
               context = Pool5MinuteData_set pool5MinuteData context;
               context = TokenDayData_set token0DayData context;
               context = TokenDayData_set token1DayData context;
               context = TokenHourData_set token0HourData context;
               context = TokenHourData_set token1HourData context;
               context = Pool_set pool context;
               context = Token_set token0 context;
               context = Token_set token1 context
           in Inr context)))))"


section \<open>Swap handler\<close>

text \<open>
  \<open>updateTickCrossed\<close> reads the tick from \<open>snapshot\<close> and writes into the
  context. The handler starts one call per crossed tick under \<^verbatim>\<open>Promise.all\<close>: every
  call issues its \<^verbatim>\<open>Tick.get\<close> before any of them resumes to write, so all reads see
  the ticks as they were when the calls started.
\<close>

definition updateTickCrossed ::
    "string \<Rightarrow> int \<Rightarrow> int \<Rightarrow> (string \<rightharpoonup> Tick) \<Rightarrow> handlerContext \<Rightarrow> handlerContext" where
  "updateTickCrossed tickId' feeGrowthGlobal0 feeGrowthGlobal1 snapshot context =
     (case snapshot tickId' of
        None \<Rightarrow> context
      | Some tickRO \<Rightarrow>
          (let tick = tickRO;
               tick = tick\<lparr> Tick.feeGrowthOutside0X128 :=
                        flipFeeGrowthOutside feeGrowthGlobal0 (Tick.feeGrowthOutside0X128 tick) \<rparr>;
               tick = tick\<lparr> Tick.feeGrowthOutside1X128 :=
                        flipFeeGrowthOutside feeGrowthGlobal1 (Tick.feeGrowthOutside1X128 tick) \<rparr>
           in Tick_set tick context))"

definition Swap_handler :: "SwapEvent \<Rightarrow> handlerContext \<Rightarrow> error + handlerContext" where
  "Swap_handler event context =
     (let poolId = eventPoolId event
      in case Pools context poolId of
           None \<Rightarrow> Inr context
         | Some poolRO \<Rightarrow>
      (case Tokens context (Pool.token0_id poolRO) of
           None \<Rightarrow> Inr context
         | Some token0RO \<Rightarrow>
      (case Tokens context (Pool.token1_id poolRO) of
           None \<Rightarrow> Inr context
         | Some token1RO \<Rightarrow>
      (let token0 = token0RO;
           token1 = token1RO;
           pool = poolRO;
           timestamp = block_timestamp event;
           amount0 = - SwapEvent.amount0 event;
           amount1 = - SwapEvent.amount1 event;
           amount0Abs = abs_bigint amount0;
           amount1Abs = abs_bigint amount1;
           fees0 = calculateFees amount0Abs (Pool.feeTier pool);
           fees1 = calculateFees amount1Abs (Pool.feeTier pool)
       in bnd (updateFeeGrowth (Pool.feeGrowthGlobal0X128 pool) fees0 (Pool.liquidity poolRO))
            (\<lambda>feeGrowth0.
          bnd (updateFeeGrowth (Pool.feeGrowthGlobal1X128 pool) fees1 (Pool.liquidity poolRO))
            (\<lambda>feeGrowth1.
          let pool = pool\<lparr> Pool.feeGrowthGlobal0X128 := feeGrowth0 \<rparr>;
              pool = pool\<lparr> Pool.feeGrowthGlobal1X128 := feeGrowth1 \<rparr>;
              oldTick = orZero (Pool.tick poolRO);
              newTick = SwapEvent.tick event
          in bnd (if oldTick \<noteq> newTick then
                    bnd (getInitializedTicksCrossed poolId oldTick newTick
                           (Pool.tickSpacing pool) (Ticks context))
                      (\<lambda>ticksCrossed.
                         Inr (fold (\<lambda>tickIdx.
                                      updateTickCrossed (tickId poolId tickIdx)
                                        (Pool.feeGrowthGlobal0X128 pool)
                                        (Pool.feeGrowthGlobal1X128 pool)
                                        (Ticks context))
                                ticksCrossed context))
                  else Inr context)
            (\<lambda>context.
          let pool = pool\<lparr> Pool.volume0 := Pool.volume0 pool + amount0Abs,
                             Pool.volume1 := Pool.volume1 pool + amount1Abs,
                             Pool.fees0 := Pool.fees0 pool + fees0,
                             Pool.fees1 := Pool.fees1 pool + fees1,
                             Pool.txCount := Pool.txCount pool + 1,
                             Pool.swapCount := Pool.swapCount pool + 1 \<rparr>;
              pool = pool\<lparr> Pool.liquidity := SwapEvent.liquidity event,
                             Pool.tick := Some (SwapEvent.tick event),
                             Pool.sqrtPrice := SwapEvent.sqrtPriceX96 event,
                             Pool.sqrtPriceX96 := SwapEvent.sqrtPriceX96 event \<rparr>;
              pool = pool\<lparr> Pool.tvl0 := Pool.tvl0 pool + amount0 \<rparr>;
              pool = pool\<lparr> Pool.tvl1 := Pool.tvl1 pool + amount1 \<rparr>;
              token0 = token0\<lparr> Token.volume := Token.volume token0 + amount0Abs,
                                Token.tvl := Token.tvl token0 + amount0,
                                Token.txCount := Token.txCount token0 + 1,
                                Token.swapCount := Token.swapCount token0 + 1 \<rparr>;
              token1 = token1\<lparr> Token.volume := Token.volume token1 + amount1Abs,
                                Token.tvl := Token.tvl token1 + amount1,
                                Token.txCount := Token.txCount token1 + 1,
                                Token.swapCount := Token.swapCount token1 + 1 \<rparr>;
              context =
                (if Pool.hooks pool \<noteq> zeroAddress then
                   (case HookStatsTable context
                           (show_int (Event.chainId event) @ ''_'' @ Pool.hooks pool) of
                      None \<Rightarrow> context
                    | Some hookStatsRO \<Rightarrow>
                        HookStats_set
                          (hookStatsRO
                             \<lparr> HookStats.swapCount := HookStats.swapCount hookStatsRO + 1,
                               HookStats.volume0 := HookStats.volume0 hookStatsRO + amount0Abs,
                               HookStats.volume1 := HookStats.volume1 hookStatsRO + amount1Abs,
                               HookStats.fees0 := HookStats.fees0 hookStatsRO + fees0,
                               HookStats.fees1 := HookStats.fees1 hookStatsRO + fees1,
                               HookStats.tvl0 := HookStats.tvl0 hookStatsRO + amount0,
                               HookStats.tvl1 := HookStats.tvl1 hookStatsRO + amount1 \<rparr>)
                          context)
                 else context);
              (transaction, context) = getOrCreateTransaction event context;
              swap = \<lparr> Swap.id' = show_int (Event.chainId event) @ ''_'' @ transaction_hash event
                                     @ ''_'' @ show_int (Event.logIndex event),
                       Swap.chainId = Event.chainId event,
                       Swap.transaction_id = Transaction.id' transaction,
                       Swap.timestamp = timestamp,
                       Swap.pool_id = Pool.id' pool,
                       Swap.token0_id = Pool.token0_id poolRO,
                       Swap.token1_id = Pool.token1_id poolRO,
                       Swap.sender = SwapEvent.sender event,
                       Swap.recipient = SwapEvent.sender event,
                       Swap.origin = eventOrigin event,
                       Swap.amount0 = amount0,
                       Swap.amount1 = amount1,
                       Swap.tick = SwapEvent.tick event,
                       Swap.sqrtPriceX96 = SwapEvent.sqrtPriceX96 event,
                       Swap.logIndex = Event.logIndex event \<rparr>;
              (poolDayData, context) = updatePoolDayData timestamp pool context;
              (poolHourData, context) = updatePoolHourData timestamp pool context;
              (pool5MinuteData, context) = updatePool5MinuteData timestamp pool context;
              (token0DayData, context) = updateTokenDayData timestamp token0 context;
              (token1DayData, context) = updateTokenDayData timestamp token1 context;
              (token0HourData, context) = updateTokenHourData timestamp token0 context;
              (token1HourData, context) = updateTokenHourData timestamp token1 context;
              poolDayData = poolDayData
                \<lparr> PoolIntervalData.volume0 := PoolIntervalData.volume0 poolDayData + amount0Abs,
                  PoolIntervalData.volume1 := PoolIntervalData.volume1 poolDayData + amount1Abs,
                  PoolIntervalData.fees0 := PoolIntervalData.fees0 poolDayData + fees0,
                  PoolIntervalData.fees1 := PoolIntervalData.fees1 poolDayData + fees1,
                  PoolIntervalData.swapCount := PoolIntervalData.swapCount poolDayData + 1 \<rparr>;
              poolHourData = poolHourData
                \<lparr> PoolIntervalData.volume0 := PoolIntervalData.volume0 poolHourData + amount0Abs,
                  PoolIntervalData.volume1 := PoolIntervalData.volume1 poolHourData + amount1Abs,
                  PoolIntervalData.fees0 := PoolIntervalData.fees0 poolHourData + fees0,
                  PoolIntervalData.fees1 := PoolIntervalData.fees1 poolHourData + fees1,
                  PoolIntervalData.swapCount := PoolIntervalData.swapCount poolHourData + 1 \<rparr>;
              pool5MinuteData = pool5MinuteData
                \<lparr> PoolIntervalData.volume0 := PoolIntervalData.volume0 pool5MinuteData + amount0Abs,
                  PoolIntervalData.volume1 := PoolIntervalData.volume1 pool5MinuteData + amount1Abs,
                  PoolIntervalData.fees0 := PoolIntervalData.fees0 pool5MinuteData + fees0,
                  PoolIntervalData.fees1 := PoolIntervalData.fees1 pool5MinuteData + fees1,
                  PoolIntervalData.swapCount := PoolIntervalData.swapCount pool5MinuteData + 1 \<rparr>;
              token0DayData = token0DayData
                \<lparr> TokenIntervalData.volume := TokenIntervalData.volume token0DayData + amount0Abs,
                  TokenIntervalData.swapCount := TokenIntervalData.swapCount token0DayData + 1 \<rparr>;
              token0HourData = token0HourData
                \<lparr> TokenIntervalData.volume := TokenIntervalData.volume token0HourData + amount0Abs,
                  TokenIntervalData.swapCount := TokenIntervalData.swapCount token0HourData + 1 \<rparr>;
              token1DayData = token1DayData
                \<lparr> TokenIntervalData.volume := TokenIntervalData.volume token1DayData + amount1Abs,
                  TokenIntervalData.swapCount := TokenIntervalData.swapCount token1DayData + 1 \<rparr>;
              token1HourData = token1HourData
                \<lparr> TokenIntervalData.volume := TokenIntervalData.volume token1HourData + amount1Abs,
                  TokenIntervalData.swapCount := TokenIntervalData.swapCount token1HourData + 1 \<rparr>;
              context = Swap_set swap context;
              context = TokenDayData_set token0DayData context;
              context = TokenDayData_set token1DayData context;
              context = PoolDayData_set poolDayData context;
              context = PoolHourData_set poolHourData context;
              context = Pool5MinuteData_set pool5MinuteData context;
              context = TokenHourData_set token0HourData context;
              context = TokenHourData_set token1HourData context;
              context = Pool_set pool context;
              context = Token_set token0 context;
              context = Token_set token1 context
          in Inr context)))))))"


section \<open>ModifyLiquidity handler\<close>

text \<open>
  The liquidity provider is fetched, and created when absent, in the same
  \<^verbatim>\<open>Promise.all\<close> batch as the token, tick and position reads, that is before the
  tokens are checked. A comparison with an absent \<open>pool.tick\<close> is false.
\<close>

definition positionId_of :: "string \<Rightarrow> ModifyLiquidityEvent \<Rightarrow> string" where
  "positionId_of poolId' event =
     poolId' @ ''#'' @ toLowerCase (ModifyLiquidityEvent.sender event)
       @ ''#'' @ show_int (ModifyLiquidityEvent.tickLower event)
       @ ''#'' @ show_int (ModifyLiquidityEvent.tickUpper event)"

definition ModifyLiquidity_handler ::
    "sdk \<Rightarrow> ModifyLiquidityEvent \<Rightarrow> handlerContext \<Rightarrow> error + handlerContext" where
  "ModifyLiquidity_handler lib event context =
     (let poolId = eventPoolId event
      in case Pools context poolId of
           None \<Rightarrow> Inr context
         | Some poolRO \<Rightarrow>
      (let lowerTickId = tickId poolId (ModifyLiquidityEvent.tickLower event);
           upperTickId = tickId poolId (ModifyLiquidityEvent.tickUpper event);
           positionId = positionId_of poolId event;
           token0Opt = Tokens context (Pool.token0_id poolRO);
           token1Opt = Tokens context (Pool.token1_id poolRO);
           lowerTickRO = Ticks context lowerTickId;
           upperTickRO = Ticks context upperTickId;
           positionRO = Positions context positionId;
           (liquidityProviderRO, context) = getOrCreateLiquidityProvider poolId event context
       in case token0Opt of
            None \<Rightarrow> Inr context
          | Some token0RO \<Rightarrow>
       (case token1Opt of
            None \<Rightarrow> Inr context
          | Some token1RO \<Rightarrow>
       (let token0 = token0RO;
            token1 = token1RO;
            pool = poolRO;
            liquidityProvider = liquidityProviderRO;
            timestamp = block_timestamp event;
            liquidityDelta = ModifyLiquidityEvent.liquidityDelta event;
            isAddingLiquidity = liquidityDelta > 0
        in bnd (calculateTokenAmounts lib liquidityDelta
                  (ModifyLiquidityEvent.tickLower event) (ModifyLiquidityEvent.tickUpper event)
                  (Pool.sqrtPriceX96 pool))
             (\<lambda>amts.
           let amount0 = amounts.amount0 amts;
               amount1 = amounts.amount1 amts;
               amount0Abs = amounts.amount0Abs amts;
               amount1Abs = amounts.amount1Abs amts;
               token0 = token0\<lparr> Token.txCount := Token.txCount token0 + 1,
                                 Token.modifyLiquidityCount := Token.modifyLiquidityCount token0 + 1 \<rparr>;
               token1 = token1\<lparr> Token.txCount := Token.txCount token1 + 1,
                                 Token.modifyLiquidityCount := Token.modifyLiquidityCount token1 + 1 \<rparr>;
               pool = pool\<lparr> Pool.txCount := Pool.txCount pool + 1,
                              Pool.modifyLiquidityCount := Pool.modifyLiquidityCount pool + 1 \<rparr>;
               pool = pool\<lparr> Pool.tvl0 := Pool.tvl0 pool + amount0 \<rparr>;
               pool = pool\<lparr> Pool.tvl1 := Pool.tvl1 pool + amount1 \<rparr>;
               pool = (case Pool.tick pool of
                         None \<Rightarrow> pool
                       | Some poolTick \<Rightarrow>
                           if ModifyLiquidityEvent.tickLower event \<le> poolTick
                              \<and> ModifyLiquidityEvent.tickUpper event > poolTick
                           then pool\<lparr> Pool.liquidity := Pool.liquidity pool + liquidityDelta \<rparr>
                           else pool);
               (transaction, context) = getOrCreateTransaction event context;
               modifyLiquidity =
                 \<lparr> ModifyLiquidity.id' = Transaction.id' transaction @ ''-''
                                             @ show_int (Event.logIndex event),
                   ModifyLiquidity.chainId = Event.chainId event,
                   ModifyLiquidity.transaction_id = Transaction.id' transaction,
                   ModifyLiquidity.timestamp = timestamp,
                   ModifyLiquidity.pool_id = Pool.id' pool,
                   ModifyLiquidity.token0_id = Pool.token0_id poolRO,
                   ModifyLiquidity.token1_id = Pool.token1_id poolRO,
                   ModifyLiquidity.sender = ModifyLiquidityEvent.sender event,
                   ModifyLiquidity.origin = eventOrigin event,
                   ModifyLiquidity.amount = liquidityDelta,
                   ModifyLiquidity.amount0 = amount0,
                   ModifyLiquidity.amount1 = amount1,
                   ModifyLiquidity.tickLower = ModifyLiquidityEvent.tickLower event,
                   ModifyLiquidity.tickUpper = ModifyLiquidityEvent.tickUpper event,
                   ModifyLiquidity.logIndex = Event.logIndex event \<rparr>;
               lowerTickIdx = ModifyLiquidityEvent.tickLower event;
               upperTickIdx = ModifyLiquidityEvent.tickUpper event;
               ltId = tickId (Pool.id' pool) lowerTickIdx;
               utId = tickId (Pool.id' pool) upperTickIdx;
               lowerTick =
                 (case lowerTickRO of
                    Some t \<Rightarrow> t
                  | None \<Rightarrow> createTick ltId lowerTickIdx (Pool.id' pool) (Pool.poolId pool)
                              (Pool.chainId pool) timestamp (block_number event));
               upperTick =
                 (case upperTickRO of
                    Some t \<Rightarrow> t
                  | None \<Rightarrow> createTick utId upperTickIdx (Pool.id' pool) (Pool.poolId pool)
                              (Pool.chainId pool) timestamp (block_number event));
               lowerTick = lowerTick
                 \<lparr> Tick.liquidityGross := Tick.liquidityGross lowerTick + liquidityDelta,
                   Tick.liquidityNet := Tick.liquidityNet lowerTick + liquidityDelta \<rparr>;
               upperTick = upperTick
                 \<lparr> Tick.liquidityGross := Tick.liquidityGross upperTick + liquidityDelta,
                   Tick.liquidityNet := Tick.liquidityNet upperTick - liquidityDelta \<rparr>;
               lowerTick = (if positionRO = None \<and> isAddingLiquidity
                            then lowerTick\<lparr> Tick.positionCount := Tick.positionCount lowerTick + 1 \<rparr>
                            else lowerTick);
               upperTick = (if positionRO = None \<and> isAddingLiquidity
                            then upperTick\<lparr> Tick.positionCount := Tick.positionCount upperTick + 1 \<rparr>
                            else upperTick);
               context = Tick_set lowerTick context;
               context = Tick_set upperTick context;
               feeGrowthInside0X128 =
                 getFeeGrowthInside (Pool.feeGrowthGlobal0X128 pool)
                   (Tick.feeGrowthOutside0X128 lowerTick) (Tick.feeGrowthOutside0X128 upperTick)
                   (ModifyLiquidityEvent.tickLower event) (ModifyLiquidityEvent.tickUpper event)
                   (orZero (Pool.tick pool));
               feeGrowthInside1X128 =
                 getFeeGrowthInside (Pool.feeGrowthGlobal1X128 pool)
                   (Tick.feeGrowthOutside1X128 lowerTick) (Tick.feeGrowthOutside1X128 upperTick)
                   (ModifyLiquidityEvent.tickLower event) (ModifyLiquidityEvent.tickUpper event)
                   (orZero (Pool.tick pool));
               position =
                 (case positionRO of
                    Some p \<Rightarrow> p
                  | None \<Rightarrow> createPosition positionId (ModifyLiquidityEvent.sender event)
                              (Pool.id' pool) (Pool.token0_id poolRO) (Pool.token1_id poolRO)
                              (ModifyLiquidityEvent.tickLower event)
                              (ModifyLiquidityEvent.tickUpper event)
                              (Transaction.id' transaction) timestamp (block_number event)
                              (LiquidityProvider.id' liquidityProvider) (Pool.chainId pool));
               accrued =
                 (case positionRO of
                    None \<Rightarrow> None
                  | Some p \<Rightarrow>
                      if Position.liquidity p > 0
                      then Some (calculateAccruedFees (Position.liquidity p) feeGrowthInside0X128
                                   (Position.feeGrowthInside0LastX128 p),
                                 calculateAccruedFees (Position.liquidity p) feeGrowthInside1X128
                                   (Position.feeGrowthInside1LastX128 p))
                      else None);
               position =
                 (case accrued of
                    None \<Rightarrow> position
                  | Some (accruedFees0, accruedFees1) \<Rightarrow>
                      position\<lparr> Position.fees0 := Position.fees0 position + accruedFees0,
                                 Position.fees1 := Position.fees1 position + accruedFees1 \<rparr>);
               liquidityProvider =
                 (case accrued of
                    None \<Rightarrow> liquidityProvider
                  | Some (accruedFees0, accruedFees1) \<Rightarrow>
                      liquidityProvider
                        \<lparr> LiquidityProvider.fees0 := LiquidityProvider.fees0 liquidityProvider + accruedFees0,
                          LiquidityProvider.fees1 := LiquidityProvider.fees1 liquidityProvider + accruedFees1 \<rparr>);
               position = position
                 \<lparr> Position.liquidity := Position.liquidity position + liquidityDelta,
                   Position.feeGrowthInside0LastX128 := feeGrowthInside0X128,
                   Position.feeGrowthInside1LastX128 := feeGrowthInside1X128,
                   Position.modifyLiquidityCount := Position.modifyLiquidityCount position + 1 \<rparr>;
               position =
                 (if isAddingLiquidity
                  then position\<lparr> Position.deposited0 := Position.deposited0 position + amount0Abs,
                                  Position.deposited1 := Position.deposited1 position + amount1Abs \<rparr>
                  else position\<lparr> Position.withdrawn0 := Position.withdrawn0 position + amount0Abs,
                                  Position.withdrawn1 := Position.withdrawn1 position + amount1Abs \<rparr>);
               liquidityProvider =
                 (if isAddingLiquidity
                  then liquidityProvider
                         \<lparr> LiquidityProvider.deposited0 := LiquidityProvider.deposited0 liquidityProvider + amount0Abs,
                           LiquidityProvider.deposited1 := LiquidityProvider.deposited1 liquidityProvider + amount1Abs \<rparr>
                  else liquidityProvider
                         \<lparr> LiquidityProvider.withdrawn0 := LiquidityProvider.withdrawn0 liquidityProvider + amount0Abs,
                           LiquidityProvider.withdrawn1 := LiquidityProvider.withdrawn1 liquidityProvider + amount1Abs \<rparr>);
               liquidityProvider = liquidityProvider
                 \<lparr> LiquidityProvider.modifyLiquidityCount :=
                     LiquidityProvider.modifyLiquidityCount liquidityProvider + 1 \<rparr>;
               liquidityProvider =
                 (if positionRO = None
                  then liquidityProvider
                         \<lparr> LiquidityProvider.positionCount :=
                             LiquidityProvider.positionCount liquidityProvider + 1 \<rparr>
                  else liquidityProvider);
               pool = (if positionRO = None
                       then pool\<lparr> Pool.positionCount := Pool.positionCount pool + 1 \<rparr> else pool);
               token0 = (if positionRO = None
                         then token0\<lparr> Token.positionCount := Token.positionCount token0 + 1 \<rparr>
                         else token0);
               token1 = (if positionRO = None
                         then token1\<lparr> Token.positionCount := Token.positionCount token1 + 1 \<rparr>
                         else token1);
               pool =
                 (if Position.liquidity position > 0
                     \<and> (case positionRO of None \<Rightarrow> True | Some p \<Rightarrow> Position.liquidity p = 0)
                  then pool\<lparr> Pool.activePositionCount := Pool.activePositionCount pool + 1 \<rparr>
                  else if Position.liquidity position = 0
                     \<and> (case positionRO of None \<Rightarrow> False | Some p \<Rightarrow> Position.liquidity p > 0)
                  then pool\<lparr> Pool.activePositionCount := Pool.activePositionCount pool - 1 \<rparr>
                  else pool);
               context = Position_set position context;
               context = LiquidityProvider_set liquidityProvider context;
               (poolDayData, context) = updatePoolDayData timestamp pool context;
               (poolHourData, context) = updatePoolHourData timestamp pool context;
               (pool5MinuteData, context) = updatePool5MinuteData timestamp pool context;
               (token0DayData, context) = updateTokenDayData timestamp token0 context;
               (token1DayData, context) = updateTokenDayData timestamp token1 context;
               (token0HourData, context) = updateTokenHourData timestamp token0 context;
               (token1HourData, context) = updateTokenHourData timestamp token1 context;
               poolDayData = poolDayData
                 \<lparr> PoolIntervalData.modifyLiquidityCount :=
                     PoolIntervalData.modifyLiquidityCount poolDayData + 1 \<rparr>;
               poolHourData = poolHourData
                 \<lparr> PoolIntervalData.modifyLiquidityCount :=
                     PoolIntervalData.modifyLiquidityCount poolHourData + 1 \<rparr>;
               pool5MinuteData = pool5MinuteData
                 \<lparr> PoolIntervalData.modifyLiquidityCount :=
                     PoolIntervalData.modifyLiquidityCount pool5MinuteData + 1 \<rparr>;
               token0DayData = token0DayData
                 \<lparr> TokenIntervalData.modifyLiquidityCount :=
                     TokenIntervalData.modifyLiquidityCount token0DayData + 1 \<rparr>;
               token1DayData = token1DayData
                 \<lparr> TokenIntervalData.modifyLiquidityCount :=
                     TokenIntervalData.modifyLiquidityCount token1DayData + 1 \<rparr>;
               token0HourData = token0HourData
                 \<lparr> TokenIntervalData.modifyLiquidityCount :=
                     TokenIntervalData.modifyLiquidityCount token0HourData + 1 \<rparr>;
               token1HourData = token1HourData
                 \<lparr> TokenIntervalData.modifyLiquidityCount :=
                     TokenIntervalData.modifyLiquidityCount token1HourData + 1 \<rparr>;
               context = PoolDayData_set poolDayData context;
               context = PoolHourData_set poolHourData context;
               context = Pool5MinuteData_set pool5MinuteData context;
               context = TokenDayData_set token0DayData context;
               context = TokenDayData_set token1DayData context;
               context = TokenHourData_set token0HourData context;
               context = TokenHourData_set token1HourData context;
               context = Token_set token0 context;
               context = Token_set token1 context;
               context = Pool_set pool context;
               context = ModifyLiquidity_set modifyLiquidity context
           in Inr context)))))"

text \<open>A run of ModifyLiquidity events, in order; the first failure ends it.\<close>

fun ModifyLiquidity_run ::
    "sdk \<Rightarrow> ModifyLiquidityEvent list \<Rightarrow> handlerContext \<Rightarrow> error + handlerContext" where
  "ModifyLiquidity_run lib [] context = Inr context"
| "ModifyLiquidity_run lib (event # events) context =
     bnd (ModifyLiquidity_handler lib event context) (ModifyLiquidity_run lib events)"

section \<open>Sample inputs\<close>

text \<open>Concrete rows and events at which the theorems below are instantiated.\<close>

definition sample_poolId :: string where
  "sample_poolId = ''1_0xaa''"

definition sample_tick :: "int \<Rightarrow> Tick" where
  "sample_tick i = createTick (tickId sample_poolId i) i sample_poolId ''0xaa'' 1 1700000000 100"

definition sample_ticks :: "string \<rightharpoonup> Tick" where
  "sample_ticks = map_of [(tickId sample_poolId (- 20), sample_tick (- 20)),
                          (tickId sample_poolId (- 10), sample_tick (- 10)),
                          (tickId sample_poolId 0, sample_tick 0),
                          (tickId sample_poolId 10, sample_tick 10),
                          (tickId sample_poolId 20, sample_tick 20)]"

section \<open>Assumptions on the price library\<close>

text \<open>
  What the theorems on \<open>calculateTokenAmounts\<close> assume of the external library: tick
  prices are positive and strictly increasing in the tick, the amount functions return
  on positive prices, and zero liquidity gives a zero amount.
\<close>

definition sdk_increasing :: "sdk \<Rightarrow> bool" where
  "sdk_increasing lib =
     (\<forall>a b x y. a < b \<longrightarrow> getSqrtRatioAtTick lib a = Inr x \<longrightarrow> getSqrtRatioAtTick lib b = Inr y
        \<longrightarrow> 0 < x \<and> x < y)"

definition sdk_returns :: "sdk \<Rightarrow> bool" where
  "sdk_returns lib =
     (\<forall>a b L. 0 < a \<longrightarrow> 0 < b \<longrightarrow>
        (\<exists>v. getAmount0Delta lib a b L False = Inr v) \<and>
        (\<exists>v. getAmount1Delta lib a b L False = Inr v))"

definition sdk_zero_liquidity :: "sdk \<Rightarrow> bool" where
  "sdk_zero_liquidity lib =
     (\<forall>a b v. (getAmount0Delta lib a b 0 False = Inr v \<longrightarrow> v = 0) \<and>
              (getAmount1Delta lib a b 0 False = Inr v \<longrightarrow> v = 0))"

text \<open>
  A sample library: three entries of the tick-price table (the minimum tick, tick 0 and
  the maximum tick; any other tick is rejected) and the virtual-reserve formulas for the
  two amounts, rounding down or up.
\<close>

definition sample_getSqrtRatioAtTick :: "int \<Rightarrow> error + int" where
  "sample_getSqrtRatioAtTick t =
     (if t = - 887272 then Inr 4295128739
      else if t = 0 then Inr 79228162514264337593543950336
      else if t = 887272 then Inr 1461446703485210103287273052203988822378723970342
      else Inl InvariantError)"

definition mulDivRoundingUp :: "int \<Rightarrow> int \<Rightarrow> int \<Rightarrow> error + int" where
  "mulDivRoundingUp a b denominator =
     bnd (bigint_div (a * b) denominator) (\<lambda>q.
     bnd (bigint_rem (a * b) denominator) (\<lambda>r.
     Inr (if r > 0 then q + 1 else q)))"

definition sample_getAmount0Delta :: "int \<Rightarrow> int \<Rightarrow> int \<Rightarrow> bool \<Rightarrow> error + int" where
  "sample_getAmount0Delta sqrtRatioA sqrtRatioB liq roundUp =
     (let a = min sqrtRatioA sqrtRatioB;
          b = max sqrtRatioA sqrtRatioB;
          numerator1 = liq * 2 ^ 96;
          numerator2 = b - a
      in if roundUp
         then bnd (mulDivRoundingUp numerator1 numerator2 b) (\<lambda>q. mulDivRoundingUp q 1 a)
         else bnd (bigint_div (numerator1 * numerator2) b) (\<lambda>q. bigint_div q a))"

definition sample_getAmount1Delta :: "int \<Rightarrow> int \<Rightarrow> int \<Rightarrow> bool \<Rightarrow> error + int" where
  "sample_getAmount1Delta sqrtRatioA sqrtRatioB liq roundUp =
     (let a = min sqrtRatioA sqrtRatioB;
          b = max sqrtRatioA sqrtRatioB
      in if roundUp then mulDivRoundingUp liq (b - a) (2 ^ 96)
         else bigint_div (liq * (b - a)) (2 ^ 96))"

definition sample_sdk :: sdk where
  "sample_sdk = \<lparr> getSqrtRatioAtTick = sample_getSqrtRatioAtTick,
                   getAmount0Delta = sample_getAmount0Delta,
                   getAmount1Delta = sample_getAmount1Delta \<rparr>"

text \<open>
  A pool on chain 1 with fee tier 3000, spacing 10 and current tick 0, its two tokens,
  the ticks above, and one event of each kind.
\<close>

definition sample_token :: "string \<Rightarrow> string \<Rightarrow> Token" where
  "sample_token tokenId tokenSymbol =
     \<lparr> Token.id' = tokenId, Token.chainId = 1, Token.symbol = tokenSymbol, Token.name = tokenSymbol,
       Token.decimals = 18, Token.totalSupply = 0, Token.volume = 0, Token.txCount = 0,
       Token.poolCount = 1, Token.swapCount = 0, Token.modifyLiquidityCount = 0,
       Token.positionCount = 0, Token.lpCount = 0, Token.tvl = 0, Token.whitelistPools = [] \<rparr>"

definition sample_pool :: Pool where
  "sample_pool =
     \<lparr> Pool.id' = sample_poolId, Pool.chainId = 1, Pool.poolId = ''0xaa'',
       Pool.name = ''AAA/BBB'', Pool.createdAtTimestamp = 1700000000,
       Pool.createdAtBlockNumber = 100,
       Pool.token0_id = ''1_0x01'', Pool.token1_id = ''1_0x02'',
       Pool.feeTier = 3000, Pool.tickSpacing = 10, Pool.hooks = zeroAddress,
       Pool.liquidity = 1000,
       Pool.sqrtPrice = 79228162514264337593543950336,
       Pool.sqrtPriceX96 = 79228162514264337593543950336,
       Pool.tick = Some 0, Pool.observationIndex = 0,
       Pool.feeGrowthGlobal0X128 = 0, Pool.feeGrowthGlobal1X128 = 0,
       Pool.volume0 = 0, Pool.volume1 = 0, Pool.fees0 = 0, Pool.fees1 = 0,
       Pool.tvl0 = 0, Pool.tvl1 = 0, Pool.txCount = 0, Pool.swapCount = 0,
       Pool.modifyLiquidityCount = 0, Pool.positionCount = 0,
       Pool.activePositionCount = 0, Pool.lpCount = 0 \<rparr>"

definition sample_context :: "Pool \<Rightarrow> handlerContext" where
  "sample_context pool =
     \<lparr> Pools = [sample_poolId \<mapsto> pool],
       Tokens = [''1_0x01'' \<mapsto> sample_token ''1_0x01'' ''AAA'',
                 ''1_0x02'' \<mapsto> sample_token ''1_0x02'' ''BBB''],
       Ticks = sample_ticks,
       Positions = Map.empty, LiquidityProviders = Map.empty, HookStatsTable = Map.empty,
       Transactions = Map.empty, Swaps = Map.empty, ModifyLiquidities = Map.empty,
       PoolDayDatas = Map.empty, PoolHourDatas = Map.empty, Pool5MinuteDatas = Map.empty,
       TokenDayDatas = Map.empty, TokenHourDatas = Map.empty \<rparr>"

definition sample_donate :: DonateEvent where
  "sample_donate =
     \<lparr> Event.chainId = 1, params_id = ''0xaa'', block_timestamp = 1700000000,
       block_number = 100, transaction_hash = ''0xbeef'',
       transaction_from = Some ''0xC0FFEE'', Event.logIndex = 3,
       DonateEvent.sender = ''0xC0FFEE'', DonateEvent.amount0 = 100,
       DonateEvent.amount1 = 0 \<rparr>"

definition sample_swap :: "int \<Rightarrow> SwapEvent" where
  "sample_swap newTick =
     \<lparr> Event.chainId = 1, params_id = ''0xaa'', block_timestamp = 1700000000,
       block_number = 100, transaction_hash = ''0xbeef'',
       transaction_from = Some ''0xC0FFEE'', Event.logIndex = 3,
       SwapEvent.sender = ''0xC0FFEE'', SwapEvent.amount0 = - 1000000,
       SwapEvent.amount1 = 990000, SwapEvent.sqrtPriceX96 = 79228162514264337593543950336,
       SwapEvent.liquidity = 1000, SwapEvent.tick = newTick \<rparr>"

definition sample_modify :: "int \<Rightarrow> ModifyLiquidityEvent" where
  "sample_modify delta =
     \<lparr> Event.chainId = 1, params_id = ''0xaa'', block_timestamp = 1700000000,
       block_number = 100, transaction_hash = ''0xbeef'',
       transaction_from = Some ''0xC0FFEE'', Event.logIndex = 3,
       ModifyLiquidityEvent.sender = ''0xC0FFEE'', ModifyLiquidityEvent.tickLower = 0,
       ModifyLiquidityEvent.tickUpper = 887272,
       ModifyLiquidityEvent.liquidityDelta = delta \<rparr>"

section \<open>Facts about BigInt arithmetic\<close>

lemma bigint_quot_nonneg:
  assumes "0 \<le> a" "0 < b"
  shows "bigint_quot a b = a div b"
  using assms by (cases "a = 0") (simp_all add: bigint_quot_def)

lemma bigint_quot_nonpos:
  assumes "a \<le> 0" "0 < b"
  shows "bigint_quot a b = - ((- a) div b)"
  using assms by (cases "a = 0") (simp_all add: bigint_quot_def)

lemma bigint_rem_floor:
  fixes a s :: int
  assumes "0 < s" "0 \<le> a \<or> s dvd a"
  shows "bigint_rem a s = Inr (a mod s)"
proof (cases "0 \<le> a")
  case True
  then show ?thesis using assms(1) by (cases "a = 0") (simp_all add: bigint_rem_def)
next
  case False
  with assms have "s dvd a" by simp
  then have "\<bar>a\<bar> mod \<bar>s\<bar> = 0" "a mod s = 0" by simp_all
  then show ?thesis using assms(1) by (simp add: bigint_rem_def)
qed

lemma show_nat_numeral:
  "show_nat (numeral k) =
     (if (numeral k :: nat) < 10 then [digit_char (numeral k)]
      else show_nat (numeral k div 10) @ [digit_char (numeral k mod 10)])"
  by (rule show_nat.simps)

lemma show_nat_small: "show_nat 0 = ''0''" "show_nat 1 = ''1''" "show_nat (Suc 0) = ''1''"
  by (simp_all add: show_nat.simps digit_char_def)

lemmas eval_ids =
  tickId_def sample_poolId_def show_int_def show_nat_numeral show_nat_small digit_char_def

section \<open>C4: accrued fees\<close>

text \<open>
  C4, as claimed: for liquidity >= 0 the accrued fees are the floor of
  liquidity * (feeGrowthInsideNow - feeGrowthInsideLast) / 2^128, also when the growth
  went down. This fails: BigInt division truncates toward zero. With liquidity 1,
  feeGrowthInsideNow 0 and feeGrowthInsideLast 1 the code returns 0, the floor is -1.
\<close>

theorem calculateAccruedFees_floor_counterexample:
  "calculateAccruedFees 1 0 1 = 0 \<and> (1 * (0 - 1)) div (2 ^ 128 :: int) = - 1"
  by (simp add: calculateAccruedFees_def bigint_quot_def)

text \<open>
  C4, amended: for liquidity >= 0 the accrued fees are the quotient truncated toward
  zero. When feeGrowthInsideNow >= feeGrowthInsideLast this is the floor of
  liquidity * (now - last) / 2^128; when feeGrowthInsideNow < feeGrowthInsideLast it is
  minus the floor of liquidity * (last - now) / 2^128.
\<close>

theorem calculateAccruedFees_truncates:
  assumes "0 \<le> L"
  shows "calculateAccruedFees L now prev =
           (if prev \<le> now then (L * (now - prev)) div 2 ^ 128
            else - ((L * (prev - now)) div 2 ^ 128))"
proof (cases "prev \<le> now")
  case True
  then have "0 \<le> L * (now - prev)" using assms by simp
  then have "bigint_quot (L * (now - prev)) (2 ^ 128) = (L * (now - prev)) div 2 ^ 128"
    by (rule bigint_quot_nonneg) simp
  then show ?thesis using True by (simp add: calculateAccruedFees_def)
next
  case False
  then have "L * (now - prev) \<le> 0" using assms by (simp add: mult_le_0_iff)
  then have "bigint_quot (L * (now - prev)) (2 ^ 128) = - ((- (L * (now - prev))) div 2 ^ 128)"
    by (rule bigint_quot_nonpos) simp
  moreover have "- (L * (now - prev)) = L * (prev - now)" by (simp add: algebra_simps)
  ultimately show ?thesis using False by (simp add: calculateAccruedFees_def)
qed

theorem calculateAccruedFees_truncates_witness:
  "(0::int) \<le> 3 \<and> calculateAccruedFees 3 (2 ^ 128) 0 = 3 \<and> calculateAccruedFees 3 0 (2 ^ 127) = - 1"
  using calculateAccruedFees_truncates [of 3 "2 ^ 128" 0]
        calculateAccruedFees_truncates [of 3 0 "2 ^ 127"]
  by simp

section \<open>C6: fee growth inside a range\<close>

text \<open>
  C6: getFeeGrowthInside returns global - below - above, where below is outsideLower if
  currentTick >= tickLower and global - outsideLower otherwise, and above is
  outsideUpper if currentTick < tickUpper and global - outsideUpper otherwise.
\<close>

theorem getFeeGrowthInside_formula:
  "getFeeGrowthInside g outsideLower outsideUpper lo hi ct =
     g - (if ct \<ge> lo then outsideLower else g - outsideLower)
       - (if ct < hi then outsideUpper else g - outsideUpper)"
  by (simp add: getFeeGrowthInside_def Let_def)

section \<open>C2: the tick-crossing scanner\<close>

lemma no_multiple_between:
  fixes s c a m :: int
  assumes "0 < s" "s dvd c" "c < a" "m < c + s"
  shows "filter (\<lambda>t. s dvd t) [a..m] = []"
proof -
  have "\<not> s dvd t" if "a \<le> t" "t \<le> m" for t
  proof
    assume "s dvd t"
    then have "s dvd (t - c)" using assms(2) by (rule dvd_diff)
    moreover have "0 < t - c" using that assms(3) by simp
    ultimately have "s \<le> t - c" by (rule zdvd_imp_le)
    with that assms(4) show False by simp
  qed
  then show ?thesis by (auto simp: filter_empty_conv)
qed

lemma ascendingLoop_aligned:
  fixes s c e :: int
  assumes "0 < s" "s dvd c"
  shows "ascendingLoop c e s acc = Some (acc @ filter (\<lambda>t. s dvd t) [c..e])"
  using assms(2)
proof (induction "nat (e + 1 - c)" arbitrary: c acc rule: less_induct)
  case less
  show ?case
  proof (cases "c \<le> e")
    case False
    then show ?thesis by (subst ascendingLoop.simps) simp
  next
    case True
    have m: "nat (e + 1 - (c + s)) < nat (e + 1 - c)" using True assms(1) by simp
    have d: "s dvd c + s" using less.prems by simp
    have step: "ascendingLoop c e s acc = ascendingLoop (c + s) e s (acc @ [c])"
      using True by (subst ascendingLoop.simps) simp
    have hd: "filter (\<lambda>t. s dvd t) [c..e] = c # filter (\<lambda>t. s dvd t) [c + 1..e]"
      using True less.prems by (subst upto_rec1) simp_all
    have tl: "filter (\<lambda>t. s dvd t) [c + 1..e] = filter (\<lambda>t. s dvd t) [c + s..e]"
    proof (cases "c + s \<le> e")
      case True
      have "[c + 1..e] = [c + 1..c + s - 1] @ [c + s..e]"
        using upto_split1 [of "c + 1" "c + s" e] True assms(1) by simp
      moreover have "filter (\<lambda>t. s dvd t) [c + 1..c + s - 1] = []"
        using no_multiple_between [OF assms(1) less.prems, of "c + 1" "c + s - 1"] by simp
      ultimately show ?thesis by simp
    next
      case False
      then have "filter (\<lambda>t. s dvd t) [c + 1..e] = []"
        using no_multiple_between [OF assms(1) less.prems, of "c + 1" e] by simp
      with False show ?thesis by simp
    qed
    show ?thesis
      unfolding step less.hyps [OF m d] hd tl by simp
  qed
qed

lemma descendingLoop_aligned:
  fixes s c e :: int
  assumes "0 < s" "s dvd c"
  shows "descendingLoop c e s acc = Some (acc @ rev (filter (\<lambda>t. s dvd t) [e..c]))"
  using assms(2)
proof (induction "nat (c + 1 - e)" arbitrary: c acc rule: less_induct)
  case less
  show ?case
  proof (cases "e \<le> c")
    case False
    then show ?thesis by (subst descendingLoop.simps) simp
  next
    case True
    have m: "nat (c - s + 1 - e) < nat (c + 1 - e)" using True assms(1) by simp
    have d: "s dvd c - s" using less.prems by simp
    have step: "descendingLoop c e s acc = descendingLoop (c - s) e s (acc @ [c])"
      using True by (subst descendingLoop.simps) simp
    have lst: "filter (\<lambda>t. s dvd t) [e..c] = filter (\<lambda>t. s dvd t) [e..c - 1] @ [c]"
      using True less.prems by (subst upto_rec2) simp_all
    have ini: "filter (\<lambda>t. s dvd t) [e..c - 1] = filter (\<lambda>t. s dvd t) [e..c - s]"
    proof (cases "e \<le> c - s")
      case True
      have "[e..c - 1] = [e..c - s] @ [c - s + 1..c - 1]"
        using upto_split2 [of e "c - s" "c - 1"] True assms(1) by simp
      moreover have "filter (\<lambda>t. s dvd t) [c - s + 1..c - 1] = []"
        using no_multiple_between [OF assms(1) d, of "c - s + 1" "c - 1"] by simp
      ultimately show ?thesis by simp
    next
      case False
      then have "filter (\<lambda>t. s dvd t) [e..c - 1] = []"
        using no_multiple_between [OF assms(1) d, of e "c - 1"] by simp
      with False show ?thesis by simp
    qed
    show ?thesis
      unfolding step less.hyps [OF m d] lst ini by simp
  qed
qed

lemma map_filter_initialized:
  "List.map_filter (\<lambda>i. case ticks (tickId p i) of Some t \<Rightarrow> Some i | None \<Rightarrow> None) xs
     = filter (\<lambda>i. ticks (tickId p i) \<noteq> None) xs"
  by (induction xs) (auto simp: map_filter_simps split: option.splits)

lemma ascending_candidates:
  fixes s a e :: int
  assumes "0 < s"
  shows "filter (\<lambda>t. s dvd t) [a..e]
           = filter (\<lambda>t. s dvd t) [(if a mod s \<noteq> 0 then a + (s - a mod s) else a)..e]"
proof (cases "a mod s = 0")
  case True
  then show ?thesis by simp
next
  case False
  define c where "c = a - a mod s"
  have "0 < a mod s" using False pos_mod_sign [OF assms, of a] by simp
  then have ca: "c < a" by (simp add: c_def)
  have cd: "s dvd c" by (simp add: c_def minus_mod_eq_mult_div)
  have cs: "a + (s - a mod s) = c + s" by (simp add: c_def)
  note c = cd ca cs
  have lt: "a < c + s" using pos_mod_bound [OF assms, of a] by (simp add: c_def)
  have "filter (\<lambda>t. s dvd t) [a..e] = filter (\<lambda>t. s dvd t) [c + s..e]"
  proof (cases "c + s \<le> e")
    case True
    have "[a..e] = [a..c + s - 1] @ [c + s..e]"
      using upto_split1 [of a "c + s" e] True lt by simp
    moreover have "filter (\<lambda>t. s dvd t) [a..c + s - 1] = []"
      using no_multiple_between [OF assms c(1) c(2), of "c + s - 1"] by simp
    ultimately show ?thesis by simp
  next
    case False
    then have "filter (\<lambda>t. s dvd t) [a..e] = []"
      using no_multiple_between [OF assms c(1) c(2), of e] by simp
    with False show ?thesis by simp
  qed
  then show ?thesis using False by (simp add: cs)
qed

lemma descending_candidates:
  fixes s a e :: int
  assumes "0 < s"
  shows "filter (\<lambda>t. s dvd t) [e..a]
           = filter (\<lambda>t. s dvd t) [e..(if a mod s \<noteq> 0 then a - a mod s else a)]"
proof (cases "a mod s = 0")
  case True
  then show ?thesis by simp
next
  case False
  define c where "c = a - a mod s"
  have "0 < a mod s" using False pos_mod_sign [OF assms, of a] by simp
  then have ca: "c < a" by (simp add: c_def)
  have cd: "s dvd c" by (simp add: c_def minus_mod_eq_mult_div)
  note c = cd ca
  have lt: "a < c + s" using pos_mod_bound [OF assms, of a] by (simp add: c_def)
  have "filter (\<lambda>t. s dvd t) [e..a] = filter (\<lambda>t. s dvd t) [e..c]"
  proof (cases "e \<le> c")
    case True
    have "[e..a] = [e..c] @ [c + 1..a]"
      using upto_split2 [of e c a] True c(2) by simp
    moreover have "filter (\<lambda>t. s dvd t) [c + 1..a] = []"
      using no_multiple_between [OF assms c(1), of "c + 1" a] lt by simp
    ultimately show ?thesis by simp
  next
    case False
    then have "filter (\<lambda>t. s dvd t) [e..a] = []"
      using no_multiple_between [OF assms c(1), of e a] lt by simp
    with False show ?thesis by simp
  qed
  with False show ?thesis by (simp add: c_def)
qed

lemma aligned_start_up:
  fixes s a :: int
  assumes "0 < s"
  shows "s dvd (if a mod s \<noteq> 0 then a + (s - a mod s) else a)"
proof -
  have "s dvd a - a mod s" by (simp add: minus_mod_eq_mult_div)
  then have "s dvd (a - a mod s) + s" by simp
  then show ?thesis by (simp add: dvd_eq_mod_eq_0 algebra_simps)
qed

lemma aligned_start_down:
  fixes s a :: int
  shows "s dvd (if a mod s \<noteq> 0 then a - a mod s else a)"
  by (simp add: minus_mod_eq_mult_div) (simp add: dvd_eq_mod_eq_0)

lemma crossed_ascending:
  fixes spacing oldTick newTick :: int
  assumes "0 < spacing" "oldTick < newTick"
    and "0 \<le> oldTick + 1 \<or> spacing dvd oldTick + 1"
  shows "getInitializedTicksCrossed p oldTick newTick spacing ticks =
           Inr [i \<leftarrow> [oldTick + 1..newTick]. spacing dvd i \<and> ticks (tickId p i) \<noteq> None]"
proof -
  let ?c = "(if (oldTick + 1) mod spacing \<noteq> 0
             then oldTick + 1 + (spacing - (oldTick + 1) mod spacing) else oldTick + 1)"
  have r: "bigint_rem (oldTick + 1) spacing = Inr ((oldTick + 1) mod spacing)"
    using assms(1,3) by (rule bigint_rem_floor)
  have l: "ascendingLoop ?c newTick spacing [] =
             Some (filter (\<lambda>t. spacing dvd t) [oldTick + 1..newTick])"
    using ascendingLoop_aligned [OF assms(1) aligned_start_up [OF assms(1)], of "oldTick + 1" newTick "[]"]
      ascending_candidates [OF assms(1), of "oldTick + 1" newTick] by simp
  have "getInitializedTicksCrossed p oldTick newTick spacing ticks =
          Inr (filter (\<lambda>i. ticks (tickId p i) \<noteq> None)
                 (filter (\<lambda>t. spacing dvd t) [oldTick + 1..newTick]))"
    using assms(2) l
    by (cases "(oldTick + 1) mod spacing = 0")
       (simp_all add: getInitializedTicksCrossed_def r bnd_def Let_def map_filter_initialized)
  then show ?thesis by (simp add: conj_commute)
qed

lemma crossed_descending:
  fixes spacing oldTick newTick :: int
  assumes "0 < spacing" "newTick < oldTick"
    and "0 \<le> oldTick \<or> spacing dvd oldTick"
  shows "getInitializedTicksCrossed p oldTick newTick spacing ticks =
           Inr (rev [i \<leftarrow> [newTick + 1..oldTick]. spacing dvd i \<and> ticks (tickId p i) \<noteq> None])"
proof -
  let ?c = "(if oldTick mod spacing \<noteq> 0 then oldTick - oldTick mod spacing else oldTick)"
  have r: "bigint_rem oldTick spacing = Inr (oldTick mod spacing)"
    using assms(1,3) by (rule bigint_rem_floor)
  have l: "descendingLoop ?c (newTick + 1) spacing [] =
             Some (rev (filter (\<lambda>t. spacing dvd t) [newTick + 1..oldTick]))"
    using descendingLoop_aligned [OF assms(1) aligned_start_down, of oldTick "newTick + 1" "[]"]
      descending_candidates [OF assms(1), of "newTick + 1" oldTick] by simp
  have "getInitializedTicksCrossed p oldTick newTick spacing ticks =
          Inr (filter (\<lambda>i. ticks (tickId p i) \<noteq> None)
                 (rev (filter (\<lambda>t. spacing dvd t) [newTick + 1..oldTick])))"
    using assms(2) l
    by (cases "oldTick mod spacing = 0")
       (simp_all add: getInitializedTicksCrossed_def r bnd_def Let_def map_filter_initialized)
  then show ?thesis by (simp add: conj_commute rev_filter)
qed

text \<open>
  C2, as claimed: a descending move returns the initialized aligned ticks of
  [newTick, oldTick), and the start is rounded correctly for negative ticks. Both fail.
  Moving down from 20 to 10 with spacing 10 and ticks 10 and 20 initialized, the code
  returns [20] (it scans (newTick, oldTick]): 20 is outside [10, 20) and the initialized
  tick 10 inside it is not returned. Moving up from -6 to 5 with tick 0 initialized, the
  code returns nothing although 0 lies in (-6, 5]: the remainder of -5 by 10 is -5 and
  the start is rounded to 10.
\<close>

theorem getInitializedTicksCrossed_claimed_intervals_counterexample:
  "getInitializedTicksCrossed sample_poolId 20 10 10 sample_ticks = Inr [20]
   \<and> sample_ticks (tickId sample_poolId 10) \<noteq> None
   \<and> getInitializedTicksCrossed sample_poolId (- 6) 5 10 sample_ticks = Inr []
   \<and> sample_ticks (tickId sample_poolId 0) \<noteq> None"
  by (simp add: getInitializedTicksCrossed_def bigint_rem_def bnd_def
        ascendingLoop.simps descendingLoop.simps map_filter_simps sample_ticks_def eval_ids)

text \<open>
  C2, amended: crossedTicks(pool, t, t) is empty for any t. For tickSpacing > 0 and a
  starting bound (oldTick + 1 when ascending, oldTick when descending) that is
  non-negative or a multiple of tickSpacing: an ascending move returns exactly the
  initialized, spacing-aligned ticks of (oldTick, newTick], strictly increasing; a
  descending move returns exactly the initialized, spacing-aligned ticks of
  (newTick, oldTick], strictly decreasing.
\<close>

theorem getInitializedTicksCrossed_intervals:
  fixes spacing oldTick newTick t :: int
  shows "getInitializedTicksCrossed p t t spacing ticks = Inr []
    \<and> (0 < spacing \<and> oldTick < newTick \<and> (0 \<le> oldTick + 1 \<or> spacing dvd oldTick + 1) \<longrightarrow>
         getInitializedTicksCrossed p oldTick newTick spacing ticks =
           Inr [i \<leftarrow> [oldTick + 1..newTick]. spacing dvd i \<and> ticks (tickId p i) \<noteq> None]
         \<and> sorted_wrt (<) [i \<leftarrow> [oldTick + 1..newTick]. spacing dvd i \<and> ticks (tickId p i) \<noteq> None])
    \<and> (0 < spacing \<and> newTick < oldTick \<and> (0 \<le> oldTick \<or> spacing dvd oldTick) \<longrightarrow>
         getInitializedTicksCrossed p oldTick newTick spacing ticks =
           Inr (rev [i \<leftarrow> [newTick + 1..oldTick]. spacing dvd i \<and> ticks (tickId p i) \<noteq> None])
         \<and> sorted_wrt (>) (rev [i \<leftarrow> [newTick + 1..oldTick]. spacing dvd i \<and> ticks (tickId p i) \<noteq> None]))"
proof (intro conjI impI)
  show "getInitializedTicksCrossed p t t spacing ticks = Inr []"
    by (simp add: getInitializedTicksCrossed_def)
next
  assume "0 < spacing \<and> oldTick < newTick \<and> (0 \<le> oldTick + 1 \<or> spacing dvd oldTick + 1)"
  then show "getInitializedTicksCrossed p oldTick newTick spacing ticks =
      Inr [i \<leftarrow> [oldTick + 1..newTick]. spacing dvd i \<and> ticks (tickId p i) \<noteq> None]"
    using crossed_ascending [of spacing oldTick newTick p ticks] by blast
next
  show "sorted_wrt (<) [i \<leftarrow> [oldTick + 1..newTick]. spacing dvd i \<and> ticks (tickId p i) \<noteq> None]"
    by (rule sorted_wrt_filter) simp
next
  assume "0 < spacing \<and> newTick < oldTick \<and> (0 \<le> oldTick \<or> spacing dvd oldTick)"
  then show "getInitializedTicksCrossed p oldTick newTick spacing ticks =
      Inr (rev [i \<leftarrow> [newTick + 1..oldTick]. spacing dvd i \<and> ticks (tickId p i) \<noteq> None])"
    using crossed_descending [of spacing newTick oldTick p ticks] by blast
next
  have "sorted_wrt (<) [i \<leftarrow> [newTick + 1..oldTick]. spacing dvd i \<and> ticks (tickId p i) \<noteq> None]"
    by (rule sorted_wrt_filter) simp
  then show "sorted_wrt (>) (rev [i \<leftarrow> [newTick + 1..oldTick]. spacing dvd i \<and> ticks (tickId p i) \<noteq> None])"
    by (simp add: sorted_wrt_rev)
qed

theorem getInitializedTicksCrossed_intervals_witness:
  "getInitializedTicksCrossed sample_poolId 7 7 10 sample_ticks = Inr []
   \<and> getInitializedTicksCrossed sample_poolId 1 25 10 sample_ticks = Inr [10, 20]
   \<and> getInitializedTicksCrossed sample_poolId 25 4 10 sample_ticks = Inr [20, 10]
   \<and> getInitializedTicksCrossed sample_poolId (- 10) (- 25) 10 sample_ticks = Inr [- 10, - 20]"
  using getInitializedTicksCrossed_intervals [of sample_poolId 7 10 sample_ticks 1 25]
        getInitializedTicksCrossed_intervals [of sample_poolId 7 10 sample_ticks 25 4]
        getInitializedTicksCrossed_intervals [of sample_poolId 7 10 sample_ticks "- 10" "- 25"]
  by (simp add: sample_ticks_def eval_ids)

section \<open>C9: token amounts\<close>

lemma sample_sdk_increasing: "sdk_increasing sample_sdk"
  by (auto simp: sdk_increasing_def sample_sdk_def sample_getSqrtRatioAtTick_def split: if_splits)

lemma sample_sdk_returns: "sdk_returns sample_sdk"
  by (auto simp: sdk_returns_def sample_sdk_def sample_getAmount0Delta_def
        sample_getAmount1Delta_def Let_def bnd_def bigint_div_def min_def max_def)

lemma sample_sdk_zero_liquidity: "sdk_zero_liquidity sample_sdk"
  by (auto simp: sdk_zero_liquidity_def sample_sdk_def sample_getAmount0Delta_def
        sample_getAmount1Delta_def Let_def bnd_def bigint_div_def bigint_quot_def
        split: if_splits)

lemma calculateTokenAmounts_below:
  assumes "getSqrtRatioAtTick lib lo = Inr sqrtLower" "getSqrtRatioAtTick lib hi = Inr sqrtUpper"
    and "price \<le> sqrtLower"
    and "getAmount0Delta lib sqrtLower sqrtUpper \<bar>delta\<bar> False = Inr a0"
  shows "calculateTokenAmounts lib delta lo hi price =
           Inr \<lparr> amounts.amount0 = (if 0 < delta then a0 else - a0), amounts.amount1 = 0,
                 amounts.amount0Abs = a0, amounts.amount1Abs = 0 \<rparr>"
  using assms by (simp add: calculateTokenAmounts_def Let_def bnd_def abs_if)

lemma calculateTokenAmounts_above:
  assumes "getSqrtRatioAtTick lib lo = Inr sqrtLower" "getSqrtRatioAtTick lib hi = Inr sqrtUpper"
    and "\<not> price \<le> sqrtLower" "sqrtUpper \<le> price"
    and "getAmount1Delta lib sqrtLower sqrtUpper \<bar>delta\<bar> False = Inr a1"
  shows "calculateTokenAmounts lib delta lo hi price =
           Inr \<lparr> amounts.amount0 = 0, amounts.amount1 = (if 0 < delta then a1 else - a1),
                 amounts.amount0Abs = 0, amounts.amount1Abs = a1 \<rparr>"
  using assms by (simp add: calculateTokenAmounts_def Let_def bnd_def abs_if)

lemma calculateTokenAmounts_inside:
  assumes "getSqrtRatioAtTick lib lo = Inr sqrtLower" "getSqrtRatioAtTick lib hi = Inr sqrtUpper"
    and "\<not> price \<le> sqrtLower" "\<not> sqrtUpper \<le> price"
    and "getAmount0Delta lib price sqrtUpper \<bar>delta\<bar> False = Inr a0"
    and "getAmount1Delta lib sqrtLower price \<bar>delta\<bar> False = Inr a1"
  shows "calculateTokenAmounts lib delta lo hi price =
           Inr \<lparr> amounts.amount0 = (if 0 < delta then a0 else - a0),
                 amounts.amount1 = (if 0 < delta then a1 else - a1),
                 amounts.amount0Abs = a0, amounts.amount1Abs = a1 \<rparr>"
  using assms by (simp add: calculateTokenAmounts_def Let_def bnd_def abs_if)

text \<open>
  C9: for every liquidityDelta, tickLower < tickUpper and sqrtPriceCurrent (the boundary
  ticks being accepted by the price library), computeAmounts returns; amount1 is 0 when
  the price is at or below the lower boundary price, amount0 is 0 when it is at or above
  the upper boundary price, and replacing liquidityDelta by -liquidityDelta negates
  amount0 and amount1 and leaves amount0Abs and amount1Abs unchanged.
\<close>

theorem calculateTokenAmounts_boundaries_and_negation:
  assumes lib: "sdk_increasing lib" "sdk_returns lib" "sdk_zero_liquidity lib"
    and ticks: "lo < hi"
    and lower: "getSqrtRatioAtTick lib lo = Inr sqrtLower"
    and upper: "getSqrtRatioAtTick lib hi = Inr sqrtUpper"
  shows "\<exists>r r'. calculateTokenAmounts lib delta lo hi price = Inr r
           \<and> calculateTokenAmounts lib (- delta) lo hi price = Inr r'
           \<and> (price \<le> sqrtLower \<longrightarrow> amounts.amount1 r = 0)
           \<and> (sqrtUpper \<le> price \<longrightarrow> amounts.amount0 r = 0)
           \<and> amounts.amount0 r' = - amounts.amount0 r
           \<and> amounts.amount1 r' = - amounts.amount1 r
           \<and> amounts.amount0Abs r' = amounts.amount0Abs r
           \<and> amounts.amount1Abs r' = amounts.amount1Abs r"
proof -
  have pos: "0 < sqrtLower" "sqrtLower < sqrtUpper"
    using lib(1) ticks lower upper unfolding sdk_increasing_def by blast+
  have z0: "v = 0" if "getAmount0Delta lib a b 0 False = Inr v" for a b v
    using lib(3) that unfolding sdk_zero_liquidity_def by blast
  have z1: "v = 0" if "getAmount1Delta lib a b 0 False = Inr v" for a b v
    using lib(3) that unfolding sdk_zero_liquidity_def by blast
  consider (below) "price \<le> sqrtLower"
    | (above) "\<not> price \<le> sqrtLower" "sqrtUpper \<le> price"
    | (inside) "\<not> price \<le> sqrtLower" "\<not> sqrtUpper \<le> price"
    by blast
  then show ?thesis
  proof cases
    case below
    obtain a0 where a0: "getAmount0Delta lib sqrtLower sqrtUpper \<bar>delta\<bar> False = Inr a0"
      using lib(2) pos unfolding sdk_returns_def by (meson less_trans)
    have a0': "getAmount0Delta lib sqrtLower sqrtUpper \<bar>- delta\<bar> False = Inr a0"
      using a0 by simp
    have zero: "delta = 0 \<Longrightarrow> a0 = 0" using a0 z0 by simp
    show ?thesis
      using below pos zero
      unfolding calculateTokenAmounts_below [OF lower upper below a0]
        calculateTokenAmounts_below [OF lower upper below a0']
      by (cases "delta = 0") auto
  next
    case above
    obtain a1 where a1: "getAmount1Delta lib sqrtLower sqrtUpper \<bar>delta\<bar> False = Inr a1"
      using lib(2) pos unfolding sdk_returns_def by (meson less_trans)
    have a1': "getAmount1Delta lib sqrtLower sqrtUpper \<bar>- delta\<bar> False = Inr a1"
      using a1 by simp
    have zero: "delta = 0 \<Longrightarrow> a1 = 0" using a1 z1 by simp
    show ?thesis
      using above pos zero
      unfolding calculateTokenAmounts_above [OF lower upper above a1]
        calculateTokenAmounts_above [OF lower upper above a1']
      by (cases "delta = 0") auto
  next
    case inside
    have p: "0 < price" using inside pos by simp
    obtain a0 where a0: "getAmount0Delta lib price sqrtUpper \<bar>delta\<bar> False = Inr a0"
      using lib(2) pos p unfolding sdk_returns_def by (meson less_trans)
    obtain a1 where a1: "getAmount1Delta lib sqrtLower price \<bar>delta\<bar> False = Inr a1"
      using lib(2) pos p unfolding sdk_returns_def by (meson less_trans)
    have a0': "getAmount0Delta lib price sqrtUpper \<bar>- delta\<bar> False = Inr a0"
      using a0 by simp
    have a1': "getAmount1Delta lib sqrtLower price \<bar>- delta\<bar> False = Inr a1"
      using a1 by simp
    have zero: "delta = 0 \<Longrightarrow> a0 = 0 \<and> a1 = 0" using a0 a1 z0 z1 by simp
    show ?thesis
      using inside pos zero
      unfolding calculateTokenAmounts_inside [OF lower upper inside a0 a1]
        calculateTokenAmounts_inside [OF lower upper inside a0' a1']
      by (cases "delta = 0") auto
  qed
qed

theorem calculateTokenAmounts_boundaries_and_negation_witness:
  "sdk_increasing sample_sdk \<and> sdk_returns sample_sdk \<and> sdk_zero_liquidity sample_sdk
   \<and> (0::int) < 887272
   \<and> (\<exists>r r'. calculateTokenAmounts sample_sdk 1000 0 887272 (2 ^ 96) = Inr r
         \<and> calculateTokenAmounts sample_sdk (- 1000) 0 887272 (2 ^ 96) = Inr r'
         \<and> amounts.amount1 r = 0
         \<and> amounts.amount0 r' = - amounts.amount0 r
         \<and> amounts.amount0Abs r' = amounts.amount0Abs r)"
  using calculateTokenAmounts_boundaries_and_negation
          [OF sample_sdk_increasing sample_sdk_returns sample_sdk_zero_liquidity,
           of 0 887272 "2 ^ 96" 1461446703485210103287273052203988822378723970342 1000 "2 ^ 96"]
        sample_sdk_increasing sample_sdk_returns sample_sdk_zero_liquidity
  by (simp add: sample_sdk_def sample_getSqrtRatioAtTick_def) blast

section \<open>Which tables each write touches\<close>

lemma Pool_set_tables [simp]:
  "Pools (Pool_set e c) = (Pools c)(Pool.id' e \<mapsto> e)"
  "Tokens (Pool_set e c) = Tokens c"
  "Ticks (Pool_set e c) = Ticks c"
  "Positions (Pool_set e c) = Positions c"
  "LiquidityProviders (Pool_set e c) = LiquidityProviders c"
  "HookStatsTable (Pool_set e c) = HookStatsTable c"
  "Transactions (Pool_set e c) = Transactions c"
  "Swaps (Pool_set e c) = Swaps c"
  "ModifyLiquidities (Pool_set e c) = ModifyLiquidities c"
  "PoolDayDatas (Pool_set e c) = PoolDayDatas c"
  "PoolHourDatas (Pool_set e c) = PoolHourDatas c"
  "Pool5MinuteDatas (Pool_set e c) = Pool5MinuteDatas c"
  "TokenDayDatas (Pool_set e c) = TokenDayDatas c"
  "TokenHourDatas (Pool_set e c) = TokenHourDatas c"
  by (simp_all add: Pool_set_def)

lemma Token_set_tables [simp]:
  "Pools (Token_set e c) = Pools c"
  "Tokens (Token_set e c) = (Tokens c)(Token.id' e \<mapsto> e)"
  "Ticks (Token_set e c) = Ticks c"
  "Positions (Token_set e c) = Positions c"
  "LiquidityProviders (Token_set e c) = LiquidityProviders c"
  "HookStatsTable (Token_set e c) = HookStatsTable c"
  "Transactions (Token_set e c) = Transactions c"
  "Swaps (Token_set e c) = Swaps c"
  "ModifyLiquidities (Token_set e c) = ModifyLiquidities c"
  "PoolDayDatas (Token_set e c) = PoolDayDatas c"
  "PoolHourDatas (Token_set e c) = PoolHourDatas c"
  "Pool5MinuteDatas (Token_set e c) = Pool5MinuteDatas c"
  "TokenDayDatas (Token_set e c) = TokenDayDatas c"
  "TokenHourDatas (Token_set e c) = TokenHourDatas c"
  by (simp_all add: Token_set_def)

lemma Tick_set_tables [simp]:
  "Pools (Tick_set e c) = Pools c"
  "Tokens (Tick_set e c) = Tokens c"
  "Ticks (Tick_set e c) = (Ticks c)(Tick.id' e \<mapsto> e)"
  "Positions (Tick_set e c) = Positions c"
  "LiquidityProviders (Tick_set e c) = LiquidityProviders c"
  "HookStatsTable (Tick_set e c) = HookStatsTable c"
  "Transactions (Tick_set e c) = Transactions c"
  "Swaps (Tick_set e c) = Swaps c"
  "ModifyLiquidities (Tick_set e c) = ModifyLiquidities c"
  "PoolDayDatas (Tick_set e c) = PoolDayDatas c"
  "PoolHourDatas (Tick_set e c) = PoolHourDatas c"
  "Pool5MinuteDatas (Tick_set e c) = Pool5MinuteDatas c"
  "TokenDayDatas (Tick_set e c) = TokenDayDatas c"
  "TokenHourDatas (Tick_set e c) = TokenHourDatas c"
  by (simp_all add: Tick_set_def)

lemma Position_set_tables [simp]:
  "Pools (Position_set e c) = Pools c"
  "Tokens (Position_set e c) = Tokens c"
  "Ticks (Position_set e c) = Ticks c"
  "Positions (Position_set e c) = (Positions c)(Position.id' e \<mapsto> e)"
  "LiquidityProviders (Position_set e c) = LiquidityProviders c"
  "HookStatsTable (Position_set e c) = HookStatsTable c"
  "Transactions (Position_set e c) = Transactions c"
  "Swaps (Position_set e c) = Swaps c"
  "ModifyLiquidities (Position_set e c) = ModifyLiquidities c"
  "PoolDayDatas (Position_set e c) = PoolDayDatas c"
  "PoolHourDatas (Position_set e c) = PoolHourDatas c"
  "Pool5MinuteDatas (Position_set e c) = Pool5MinuteDatas c"
  "TokenDayDatas (Position_set e c) = TokenDayDatas c"
  "TokenHourDatas (Position_set e c) = TokenHourDatas c"
  by (simp_all add: Position_set_def)

lemma LiquidityProvider_set_tables [simp]:
  "Pools (LiquidityProvider_set e c) = Pools c"
  "Tokens (LiquidityProvider_set e c) = Tokens c"
  "Ticks (LiquidityProvider_set e c) = Ticks c"
  "Positions (LiquidityProvider_set e c) = Positions c"
  "LiquidityProviders (LiquidityProvider_set e c) = (LiquidityProviders c)(LiquidityProvider.id' e \<mapsto> e)"
  "HookStatsTable (LiquidityProvider_set e c) = HookStatsTable c"
  "Transactions (LiquidityProvider_set e c) = Transactions c"
  "Swaps (LiquidityProvider_set e c) = Swaps c"
  "ModifyLiquidities (LiquidityProvider_set e c) = ModifyLiquidities c"
  "PoolDayDatas (LiquidityProvider_set e c) = PoolDayDatas c"
  "PoolHourDatas (LiquidityProvider_set e c) = PoolHourDatas c"
  "Pool5MinuteDatas (LiquidityProvider_set e c) = Pool5MinuteDatas c"
  "TokenDayDatas (LiquidityProvider_set e c) = TokenDayDatas c"
  "TokenHourDatas (LiquidityProvider_set e c) = TokenHourDatas c"
  by (simp_all add: LiquidityProvider_set_def)

lemma HookStats_set_tables [simp]:
  "Pools (HookStats_set e c) = Pools c"
  "Tokens (HookStats_set e c) = Tokens c"
  "Ticks (HookStats_set e c) = Ticks c"
  "Positions (HookStats_set e c) = Positions c"
  "LiquidityProviders (HookStats_set e c) = LiquidityProviders c"
  "HookStatsTable (HookStats_set e c) = (HookStatsTable c)(HookStats.id' e \<mapsto> e)"
  "Transactions (HookStats_set e c) = Transactions c"
  "Swaps (HookStats_set e c) = Swaps c"
  "ModifyLiquidities (HookStats_set e c) = ModifyLiquidities c"
  "PoolDayDatas (HookStats_set e c) = PoolDayDatas c"
  "PoolHourDatas (HookStats_set e c) = PoolHourDatas c"
  "Pool5MinuteDatas (HookStats_set e c) = Pool5MinuteDatas c"
  "TokenDayDatas (HookStats_set e c) = TokenDayDatas c"
  "TokenHourDatas (HookStats_set e c) = TokenHourDatas c"
  by (simp_all add: HookStats_set_def)

lemma Transaction_set_tables [simp]:
  "Pools (Transaction_set e c) = Pools c"
  "Tokens (Transaction_set e c) = Tokens c"
  "Ticks (Transaction_set e c) = Ticks c"
  "Positions (Transaction_set e c) = Positions c"
  "LiquidityProviders (Transaction_set e c) = LiquidityProviders c"
  "HookStatsTable (Transaction_set e c) = HookStatsTable c"
  "Transactions (Transaction_set e c) = (Transactions c)(Transaction.id' e \<mapsto> e)"
  "Swaps (Transaction_set e c) = Swaps c"
  "ModifyLiquidities (Transaction_set e c) = ModifyLiquidities c"
  "PoolDayDatas (Transaction_set e c) = PoolDayDatas c"
  "PoolHourDatas (Transaction_set e c) = PoolHourDatas c"
  "Pool5MinuteDatas (Transaction_set e c) = Pool5MinuteDatas c"
  "TokenDayDatas (Transaction_set e c) = TokenDayDatas c"
  "TokenHourDatas (Transaction_set e c) = TokenHourDatas c"
  by (simp_all add: Transaction_set_def)

lemma Swap_set_tables [simp]:
  "Pools (Swap_set e c) = Pools c"
  "Tokens (Swap_set e c) = Tokens c"
  "Ticks (Swap_set e c) = Ticks c"
  "Positions (Swap_set e c) = Positions c"
  "LiquidityProviders (Swap_set e c) = LiquidityProviders c"
  "HookStatsTable (Swap_set e c) = HookStatsTable c"
  "Transactions (Swap_set e c) = Transactions c"
  "Swaps (Swap_set e c) = (Swaps c)(Swap.id' e \<mapsto> e)"
  "ModifyLiquidities (Swap_set e c) = ModifyLiquidities c"
  "PoolDayDatas (Swap_set e c) = PoolDayDatas c"
  "PoolHourDatas (Swap_set e c) = PoolHourDatas c"
  "Pool5MinuteDatas (Swap_set e c) = Pool5MinuteDatas c"
  "TokenDayDatas (Swap_set e c) = TokenDayDatas c"
  "TokenHourDatas (Swap_set e c) = TokenHourDatas c"
  by (simp_all add: Swap_set_def)

lemma ModifyLiquidity_set_tables [simp]:
  "Pools (ModifyLiquidity_set e c) = Pools c"
  "Tokens (ModifyLiquidity_set e c) = Tokens c"
  "Ticks (ModifyLiquidity_set e c) = Ticks c"
  "Positions (ModifyLiquidity_set e c) = Positions c"
  "LiquidityProviders (ModifyLiquidity_set e c) = LiquidityProviders c"
  "HookStatsTable (ModifyLiquidity_set e c) = HookStatsTable c"
  "Transactions (ModifyLiquidity_set e c) = Transactions c"
  "Swaps (ModifyLiquidity_set e c) = Swaps c"
  "ModifyLiquidities (ModifyLiquidity_set e c) = (ModifyLiquidities c)(ModifyLiquidity.id' e \<mapsto> e)"
  "PoolDayDatas (ModifyLiquidity_set e c) = PoolDayDatas c"
  "PoolHourDatas (ModifyLiquidity_set e c) = PoolHourDatas c"
  "Pool5MinuteDatas (ModifyLiquidity_set e c) = Pool5MinuteDatas c"
  "TokenDayDatas (ModifyLiquidity_set e c) = TokenDayDatas c"
  "TokenHourDatas (ModifyLiquidity_set e c) = TokenHourDatas c"
  by (simp_all add: ModifyLiquidity_set_def)

lemma PoolDayData_set_tables [simp]:
  "Pools (PoolDayData_set e c) = Pools c"
  "Tokens (PoolDayData_set e c) = Tokens c"
  "Ticks (PoolDayData_set e c) = Ticks c"
  "Positions (PoolDayData_set e c) = Positions c"
  "LiquidityProviders (PoolDayData_set e c) = LiquidityProviders c"
  "HookStatsTable (PoolDayData_set e c) = HookStatsTable c"
  "Transactions (PoolDayData_set e c) = Transactions c"
  "Swaps (PoolDayData_set e c) = Swaps c"
  "ModifyLiquidities (PoolDayData_set e c) = ModifyLiquidities c"
  "PoolDayDatas (PoolDayData_set e c) = (PoolDayDatas c)(PoolIntervalData.id' e \<mapsto> e)"
  "PoolHourDatas (PoolDayData_set e c) = PoolHourDatas c"
  "Pool5MinuteDatas (PoolDayData_set e c) = Pool5MinuteDatas c"
  "TokenDayDatas (PoolDayData_set e c) = TokenDayDatas c"
  "TokenHourDatas (PoolDayData_set e c) = TokenHourDatas c"
  by (simp_all add: PoolDayData_set_def)

lemma PoolHourData_set_tables [simp]:
  "Pools (PoolHourData_set e c) = Pools c"
  "Tokens (PoolHourData_set e c) = Tokens c"
  "Ticks (PoolHourData_set e c) = Ticks c"
  "Positions (PoolHourData_set e c) = Positions c"
  "LiquidityProviders (PoolHourData_set e c) = LiquidityProviders c"
  "HookStatsTable (PoolHourData_set e c) = HookStatsTable c"
  "Transactions (PoolHourData_set e c) = Transactions c"
  "Swaps (PoolHourData_set e c) = Swaps c"
  "ModifyLiquidities (PoolHourData_set e c) = ModifyLiquidities c"
  "PoolDayDatas (PoolHourData_set e c) = PoolDayDatas c"
  "PoolHourDatas (PoolHourData_set e c) = (PoolHourDatas c)(PoolIntervalData.id' e \<mapsto> e)"
  "Pool5MinuteDatas (PoolHourData_set e c) = Pool5MinuteDatas c"
  "TokenDayDatas (PoolHourData_set e c) = TokenDayDatas c"
  "TokenHourDatas (PoolHourData_set e c) = TokenHourDatas c"
  by (simp_all add: PoolHourData_set_def)

lemma Pool5MinuteData_set_tables [simp]:
  "Pools (Pool5MinuteData_set e c) = Pools c"
  "Tokens (Pool5MinuteData_set e c) = Tokens c"
  "Ticks (Pool5MinuteData_set e c) = Ticks c"
  "Positions (Pool5MinuteData_set e c) = Positions c"
  "LiquidityProviders (Pool5MinuteData_set e c) = LiquidityProviders c"
  "HookStatsTable (Pool5MinuteData_set e c) = HookStatsTable c"
  "Transactions (Pool5MinuteData_set e c) = Transactions c"
  "Swaps (Pool5MinuteData_set e c) = Swaps c"
  "ModifyLiquidities (Pool5MinuteData_set e c) = ModifyLiquidities c"
  "PoolDayDatas (Pool5MinuteData_set e c) = PoolDayDatas c"
  "PoolHourDatas (Pool5MinuteData_set e c) = PoolHourDatas c"
  "Pool5MinuteDatas (Pool5MinuteData_set e c) = (Pool5MinuteDatas c)(PoolIntervalData.id' e \<mapsto> e)"
  "TokenDayDatas (Pool5MinuteData_set e c) = TokenDayDatas c"
  "TokenHourDatas (Pool5MinuteData_set e c) = TokenHourDatas c"
  by (simp_all add: Pool5MinuteData_set_def)

lemma TokenDayData_set_tables [simp]:
  "Pools (TokenDayData_set e c) = Pools c"
  "Tokens (TokenDayData_set e c) = Tokens c"
  "Ticks (TokenDayData_set e c) = Ticks c"
  "Positions (TokenDayData_set e c) = Positions c"
  "LiquidityProviders (TokenDayData_set e c) = LiquidityProviders c"
  "HookStatsTable (TokenDayData_set e c) = HookStatsTable c"
  "Transactions (TokenDayData_set e c) = Transactions c"
  "Swaps (TokenDayData_set e c) = Swaps c"
  "ModifyLiquidities (TokenDayData_set e c) = ModifyLiquidities c"
  "PoolDayDatas (TokenDayData_set e c) = PoolDayDatas c"
  "PoolHourDatas (TokenDayData_set e c) = PoolHourDatas c"
  "Pool5MinuteDatas (TokenDayData_set e c) = Pool5MinuteDatas c"
  "TokenDayDatas (TokenDayData_set e c) = (TokenDayDatas c)(TokenIntervalData.id' e \<mapsto> e)"
  "TokenHourDatas (TokenDayData_set e c) = TokenHourDatas c"
  by (simp_all add: TokenDayData_set_def)

lemma TokenHourData_set_tables [simp]:
  "Pools (TokenHourData_set e c) = Pools c"
  "Tokens (TokenHourData_set e c) = Tokens c"
  "Ticks (TokenHourData_set e c) = Ticks c"
  "Positions (TokenHourData_set e c) = Positions c"
  "LiquidityProviders (TokenHourData_set e c) = LiquidityProviders c"
  "HookStatsTable (TokenHourData_set e c) = HookStatsTable c"
  "Transactions (TokenHourData_set e c) = Transactions c"
  "Swaps (TokenHourData_set e c) = Swaps c"
  "ModifyLiquidities (TokenHourData_set e c) = ModifyLiquidities c"
  "PoolDayDatas (TokenHourData_set e c) = PoolDayDatas c"
  "PoolHourDatas (TokenHourData_set e c) = PoolHourDatas c"
  "Pool5MinuteDatas (TokenHourData_set e c) = Pool5MinuteDatas c"
  "TokenDayDatas (TokenHourData_set e c) = TokenDayDatas c"
  "TokenHourDatas (TokenHourData_set e c) = (TokenHourDatas c)(TokenIntervalData.id' e \<mapsto> e)"
  by (simp_all add: TokenHourData_set_def)

lemma getOrCreateTransaction_tables [simp]:
  "Pools (snd (getOrCreateTransaction ev c)) = Pools c"
  "Tokens (snd (getOrCreateTransaction ev c)) = Tokens c"
  "Ticks (snd (getOrCreateTransaction ev c)) = Ticks c"
  "Positions (snd (getOrCreateTransaction ev c)) = Positions c"
  "LiquidityProviders (snd (getOrCreateTransaction ev c)) = LiquidityProviders c"
  "HookStatsTable (snd (getOrCreateTransaction ev c)) = HookStatsTable c"
  "Swaps (snd (getOrCreateTransaction ev c)) = Swaps c"
  "ModifyLiquidities (snd (getOrCreateTransaction ev c)) = ModifyLiquidities c"
  "PoolDayDatas (snd (getOrCreateTransaction ev c)) = PoolDayDatas c"
  "PoolHourDatas (snd (getOrCreateTransaction ev c)) = PoolHourDatas c"
  "Pool5MinuteDatas (snd (getOrCreateTransaction ev c)) = Pool5MinuteDatas c"
  "TokenDayDatas (snd (getOrCreateTransaction ev c)) = TokenDayDatas c"
  "TokenHourDatas (snd (getOrCreateTransaction ev c)) = TokenHourDatas c"
  by (simp_all add: getOrCreateTransaction_def Let_def)

lemma getOrCreateLiquidityProvider_tables [simp]:
  "Pools (snd (getOrCreateLiquidityProvider k ev c)) = Pools c"
  "Tokens (snd (getOrCreateLiquidityProvider k ev c)) = Tokens c"
  "Ticks (snd (getOrCreateLiquidityProvider k ev c)) = Ticks c"
  "Positions (snd (getOrCreateLiquidityProvider k ev c)) = Positions c"
  "HookStatsTable (snd (getOrCreateLiquidityProvider k ev c)) = HookStatsTable c"
  "Transactions (snd (getOrCreateLiquidityProvider k ev c)) = Transactions c"
  "Swaps (snd (getOrCreateLiquidityProvider k ev c)) = Swaps c"
  "ModifyLiquidities (snd (getOrCreateLiquidityProvider k ev c)) = ModifyLiquidities c"
  "PoolDayDatas (snd (getOrCreateLiquidityProvider k ev c)) = PoolDayDatas c"
  "PoolHourDatas (snd (getOrCreateLiquidityProvider k ev c)) = PoolHourDatas c"
  "Pool5MinuteDatas (snd (getOrCreateLiquidityProvider k ev c)) = Pool5MinuteDatas c"
  "TokenDayDatas (snd (getOrCreateLiquidityProvider k ev c)) = TokenDayDatas c"
  "TokenHourDatas (snd (getOrCreateLiquidityProvider k ev c)) = TokenHourDatas c"
  by (simp_all add: getOrCreateLiquidityProvider_def Let_def split: option.split)

lemma updatePoolDayData_tables [simp]:
  "Pools (snd (updatePoolDayData ts p c)) = Pools c"
  "Tokens (snd (updatePoolDayData ts p c)) = Tokens c"
  "Ticks (snd (updatePoolDayData ts p c)) = Ticks c"
  "Positions (snd (updatePoolDayData ts p c)) = Positions c"
  "LiquidityProviders (snd (updatePoolDayData ts p c)) = LiquidityProviders c"
  "HookStatsTable (snd (updatePoolDayData ts p c)) = HookStatsTable c"
  "Transactions (snd (updatePoolDayData ts p c)) = Transactions c"
  "Swaps (snd (updatePoolDayData ts p c)) = Swaps c"
  "ModifyLiquidities (snd (updatePoolDayData ts p c)) = ModifyLiquidities c"
  "PoolHourDatas (snd (updatePoolDayData ts p c)) = PoolHourDatas c"
  "Pool5MinuteDatas (snd (updatePoolDayData ts p c)) = Pool5MinuteDatas c"
  "TokenDayDatas (snd (updatePoolDayData ts p c)) = TokenDayDatas c"
  "TokenHourDatas (snd (updatePoolDayData ts p c)) = TokenHourDatas c"
  by (simp_all add: updatePoolDayData_def Let_def)

lemma updatePoolHourData_tables [simp]:
  "Pools (snd (updatePoolHourData ts p c)) = Pools c"
  "Tokens (snd (updatePoolHourData ts p c)) = Tokens c"
  "Ticks (snd (updatePoolHourData ts p c)) = Ticks c"
  "Positions (snd (updatePoolHourData ts p c)) = Positions c"
  "LiquidityProviders (snd (updatePoolHourData ts p c)) = LiquidityProviders c"
  "HookStatsTable (snd (updatePoolHourData ts p c)) = HookStatsTable c"
  "Transactions (snd (updatePoolHourData ts p c)) = Transactions c"
  "Swaps (snd (updatePoolHourData ts p c)) = Swaps c"
  "ModifyLiquidities (snd (updatePoolHourData ts p c)) = ModifyLiquidities c"
  "PoolDayDatas (snd (updatePoolHourData ts p c)) = PoolDayDatas c"
  "Pool5MinuteDatas (snd (updatePoolHourData ts p c)) = Pool5MinuteDatas c"
  "TokenDayDatas (snd (updatePoolHourData ts p c)) = TokenDayDatas c"
  "TokenHourDatas (snd (updatePoolHourData ts p c)) = TokenHourDatas c"
  by (simp_all add: updatePoolHourData_def Let_def)

lemma updatePool5MinuteData_tables [simp]:
  "Pools (snd (updatePool5MinuteData ts p c)) = Pools c"
  "Tokens (snd (updatePool5MinuteData ts p c)) = Tokens c"
  "Ticks (snd (updatePool5MinuteData ts p c)) = Ticks c"
  "Positions (snd (updatePool5MinuteData ts p c)) = Positions c"
  "LiquidityProviders (snd (updatePool5MinuteData ts p c)) = LiquidityProviders c"
  "HookStatsTable (snd (updatePool5MinuteData ts p c)) = HookStatsTable c"
  "Transactions (snd (updatePool5MinuteData ts p c)) = Transactions c"
  "Swaps (snd (updatePool5MinuteData ts p c)) = Swaps c"
  "ModifyLiquidities (snd (updatePool5MinuteData ts p c)) = ModifyLiquidities c"
  "PoolDayDatas (snd (updatePool5MinuteData ts p c)) = PoolDayDatas c"
  "PoolHourDatas (snd (updatePool5MinuteData ts p c)) = PoolHourDatas c"
  "TokenDayDatas (snd (updatePool5MinuteData ts p c)) = TokenDayDatas c"
  "TokenHourDatas (snd (updatePool5MinuteData ts p c)) = TokenHourDatas c"
  by (simp_all add: updatePool5MinuteData_def Let_def)

lemma updateTokenDayData_tables [simp]:
  "Pools (snd (updateTokenDayData ts tk c)) = Pools c"
  "Tokens (snd (updateTokenDayData ts tk c)) = Tokens c"
  "Ticks (snd (updateTokenDayData ts tk c)) = Ticks c"
  "Positions (snd (updateTokenDayData ts tk c)) = Positions c"
  "LiquidityProviders (snd (updateTokenDayData ts tk c)) = LiquidityProviders c"
  "HookStatsTable (snd (updateTokenDayData ts tk c)) = HookStatsTable c"
  "Transactions (snd (updateTokenDayData ts tk c)) = Transactions c"
  "Swaps (snd (updateTokenDayData ts tk c)) = Swaps c"
  "ModifyLiquidities (snd (updateTokenDayData ts tk c)) = ModifyLiquidities c"
  "PoolDayDatas (snd (updateTokenDayData ts tk c)) = PoolDayDatas c"
  "PoolHourDatas (snd (updateTokenDayData ts tk c)) = PoolHourDatas c"
  "Pool5MinuteDatas (snd (updateTokenDayData ts tk c)) = Pool5MinuteDatas c"
  "TokenHourDatas (snd (updateTokenDayData ts tk c)) = TokenHourDatas c"
  by (simp_all add: updateTokenDayData_def Let_def)

lemma updateTokenHourData_tables [simp]:
  "Pools (snd (updateTokenHourData ts tk c)) = Pools c"
  "Tokens (snd (updateTokenHourData ts tk c)) = Tokens c"
  "Ticks (snd (updateTokenHourData ts tk c)) = Ticks c"
  "Positions (snd (updateTokenHourData ts tk c)) = Positions c"
  "LiquidityProviders (snd (updateTokenHourData ts tk c)) = LiquidityProviders c"
  "HookStatsTable (snd (updateTokenHourData ts tk c)) = HookStatsTable c"
  "Transactions (snd (updateTokenHourData ts tk c)) = Transactions c"
  "Swaps (snd (updateTokenHourData ts tk c)) = Swaps c"
  "ModifyLiquidities (snd (updateTokenHourData ts tk c)) = ModifyLiquidities c"
  "PoolDayDatas (snd (updateTokenHourData ts tk c)) = PoolDayDatas c"
  "PoolHourDatas (snd (updateTokenHourData ts tk c)) = PoolHourDatas c"
  "Pool5MinuteDatas (snd (updateTokenHourData ts tk c)) = Pool5MinuteDatas c"
  "TokenDayDatas (snd (updateTokenHourData ts tk c)) = TokenDayDatas c"
  by (simp_all add: updateTokenHourData_def Let_def)

lemma updatePoolDayData_bucket:
  "PoolDayDatas (snd (updatePoolDayData ts p c)) =
     (PoolDayDatas c)(PoolIntervalData.id' (fst (updatePoolDayData ts p c))
                        \<mapsto> fst (updatePoolDayData ts p c))"
  by (simp add: updatePoolDayData_def Let_def)

lemma updatePoolHourData_bucket:
  "PoolHourDatas (snd (updatePoolHourData ts p c)) =
     (PoolHourDatas c)(PoolIntervalData.id' (fst (updatePoolHourData ts p c))
                         \<mapsto> fst (updatePoolHourData ts p c))"
  by (simp add: updatePoolHourData_def Let_def)

lemma updatePool5MinuteData_bucket:
  "Pool5MinuteDatas (snd (updatePool5MinuteData ts p c)) =
     (Pool5MinuteDatas c)(PoolIntervalData.id' (fst (updatePool5MinuteData ts p c))
                            \<mapsto> fst (updatePool5MinuteData ts p c))"
  by (simp add: updatePool5MinuteData_def Let_def)

lemma touchPoolIntervalData_fields [simp]:
  "PoolIntervalData.id' (touchPoolIntervalData p d) = PoolIntervalData.id' d"
  "PoolIntervalData.fees0 (touchPoolIntervalData p d) = PoolIntervalData.fees0 d"
  "PoolIntervalData.fees1 (touchPoolIntervalData p d) = PoolIntervalData.fees1 d"
  by (simp_all add: touchPoolIntervalData_def Let_def)

lemma newPoolIntervalData_fields [simp]:
  "PoolIntervalData.id' (newPoolIntervalData k s p l q) = k"
  "PoolIntervalData.fees0 (newPoolIntervalData k s p l q) = 0"
  "PoolIntervalData.fees1 (newPoolIntervalData k s p l q) = 0"
  by (simp_all add: newPoolIntervalData_def)

lemma hookStats_step_tables [simp]:
  "Pools (if b then (case x of None \<Rightarrow> c | Some h \<Rightarrow> HookStats_set (f h) c) else c) = Pools c"
  "Tokens (if b then (case x of None \<Rightarrow> c | Some h \<Rightarrow> HookStats_set (f h) c) else c) = Tokens c"
  "Ticks (if b then (case x of None \<Rightarrow> c | Some h \<Rightarrow> HookStats_set (f h) c) else c) = Ticks c"
  "Positions (if b then (case x of None \<Rightarrow> c | Some h \<Rightarrow> HookStats_set (f h) c) else c) = Positions c"
  "PoolDayDatas (if b then (case x of None \<Rightarrow> c | Some h \<Rightarrow> HookStats_set (f h) c) else c) = PoolDayDatas c"
  "PoolHourDatas (if b then (case x of None \<Rightarrow> c | Some h \<Rightarrow> HookStats_set (f h) c) else c) = PoolHourDatas c"
  "Pool5MinuteDatas (if b then (case x of None \<Rightarrow> c | Some h \<Rightarrow> HookStats_set (f h) c) else c) = Pool5MinuteDatas c"
  by (simp_all split: option.split)

section \<open>C7, C8, C10: fee growth under zero liquidity, donations\<close>

lemma updateFeeGrowth_value:
  "updateFeeGrowth g fees L = Inr (if L = 0 then g else g + bigint_quot (fees * Q128) L)"
  by (simp add: updateFeeGrowth_def bigint_div_def)

lemma Donate_handler_returns: "\<exists>c. Donate_handler ev ctx = Inr c"
  by (simp add: Donate_handler_def Let_def bnd_def bigint_div_def split_beta
           split: option.split)

lemma Swap_handler_failure:
  assumes "Swap_handler ev ctx = Inl e"
  shows "\<exists>pool. Pools ctx (eventPoolId ev) = Some pool
           \<and> getInitializedTicksCrossed (eventPoolId ev) (orZero (Pool.tick pool))
                (SwapEvent.tick ev) (Pool.tickSpacing pool) (Ticks ctx) = Inl e"
  using assms
  by (simp add: Swap_handler_def Let_def bnd_def updateFeeGrowth_value split_beta
           split: option.splits sum.splits if_splits)

lemma Donate_zero_liquidity_pool:
  assumes "Pools ctx (eventPoolId ev) = Some pool"
    and "Tokens ctx (Pool.token0_id pool) = Some token0"
    and "Tokens ctx (Pool.token1_id pool) = Some token1"
    and "Pool.liquidity pool = 0"
    and "Donate_handler ev ctx = Inr ctx'"
  shows "Pools ctx' =
         (Pools ctx)(Pool.id' pool \<mapsto>
            pool\<lparr> Pool.tvl0 := Pool.tvl0 pool + DonateEvent.amount0 ev,
                  Pool.tvl1 := Pool.tvl1 pool + DonateEvent.amount1 ev,
                  Pool.txCount := Pool.txCount pool + 1 \<rparr>)"
  using assms
  by (auto simp add: Donate_handler_def Let_def bnd_def split_beta)

lemma Donate_zero_liquidity_day:
  assumes "Pools ctx (eventPoolId ev) = Some pool"
    and "Tokens ctx (Pool.token0_id pool) = Some token0"
    and "Tokens ctx (Pool.token1_id pool) = Some token1"
    and "Pool.liquidity pool = 0"
    and "\<forall>b. PoolDayDatas ctx (Pool.id' pool @ ''-'' @ show_int (block_timestamp ev div 86400)) = Some b
           \<longrightarrow> PoolIntervalData.id' b = Pool.id' pool @ ''-'' @ show_int (block_timestamp ev div 86400)"
    and "Donate_handler ev ctx = Inr ctx'"
  shows "map_option PoolIntervalData.fees0 (PoolDayDatas ctx' (Pool.id' pool @ ''-'' @ show_int (block_timestamp ev div 86400)))
           = Some ((case PoolDayDatas ctx (Pool.id' pool @ ''-'' @ show_int (block_timestamp ev div 86400)) of
                      None \<Rightarrow> 0 | Some b \<Rightarrow> PoolIntervalData.fees0 b) + DonateEvent.amount0 ev)"
    and "map_option PoolIntervalData.fees1 (PoolDayDatas ctx' (Pool.id' pool @ ''-'' @ show_int (block_timestamp ev div 86400)))
           = Some ((case PoolDayDatas ctx (Pool.id' pool @ ''-'' @ show_int (block_timestamp ev div 86400)) of
                      None \<Rightarrow> 0 | Some b \<Rightarrow> PoolIntervalData.fees1 b) + DonateEvent.amount1 ev)"
  using assms
  by (auto simp add: Donate_handler_def Let_def bnd_def split_beta updatePoolDayData_bucket
        updatePoolDayData_def split: option.splits)

lemma Donate_zero_liquidity_hour:
  assumes "Pools ctx (eventPoolId ev) = Some pool"
    and "Tokens ctx (Pool.token0_id pool) = Some token0"
    and "Tokens ctx (Pool.token1_id pool) = Some token1"
    and "Pool.liquidity pool = 0"
    and "\<forall>b. PoolHourDatas ctx (Pool.id' pool @ ''-'' @ show_int (block_timestamp ev div 3600)) = Some b
           \<longrightarrow> PoolIntervalData.id' b = Pool.id' pool @ ''-'' @ show_int (block_timestamp ev div 3600)"
    and "Donate_handler ev ctx = Inr ctx'"
  shows "map_option PoolIntervalData.fees0 (PoolHourDatas ctx' (Pool.id' pool @ ''-'' @ show_int (block_timestamp ev div 3600)))
           = Some ((case PoolHourDatas ctx (Pool.id' pool @ ''-'' @ show_int (block_timestamp ev div 3600)) of
                      None \<Rightarrow> 0 | Some b \<Rightarrow> PoolIntervalData.fees0 b) + DonateEvent.amount0 ev)"
    and "map_option PoolIntervalData.fees1 (PoolHourDatas ctx' (Pool.id' pool @ ''-'' @ show_int (block_timestamp ev div 3600)))
           = Some ((case PoolHourDatas ctx (Pool.id' pool @ ''-'' @ show_int (block_timestamp ev div 3600)) of
                      None \<Rightarrow> 0 | Some b \<Rightarrow> PoolIntervalData.fees1 b) + DonateEvent.amount1 ev)"
  using assms
  by (auto simp add: Donate_handler_def Let_def bnd_def split_beta updatePoolHourData_bucket
        updatePoolHourData_def split: option.splits)

lemma Donate_zero_liquidity_five:
  assumes "Pools ctx (eventPoolId ev) = Some pool"
    and "Tokens ctx (Pool.token0_id pool) = Some token0"
    and "Tokens ctx (Pool.token1_id pool) = Some token1"
    and "Pool.liquidity pool = 0"
    and "\<forall>b. Pool5MinuteDatas ctx (Pool.id' pool @ ''-'' @ show_int (block_timestamp ev div 300)) = Some b
           \<longrightarrow> PoolIntervalData.id' b = Pool.id' pool @ ''-'' @ show_int (block_timestamp ev div 300)"
    and "Donate_handler ev ctx = Inr ctx'"
  shows "map_option PoolIntervalData.fees0 (Pool5MinuteDatas ctx' (Pool.id' pool @ ''-'' @ show_int (block_timestamp ev div 300)))
           = Some ((case Pool5MinuteDatas ctx (Pool.id' pool @ ''-'' @ show_int (block_timestamp ev div 300)) of
                      None \<Rightarrow> 0 | Some b \<Rightarrow> PoolIntervalData.fees0 b) + DonateEvent.amount0 ev)"
    and "map_option PoolIntervalData.fees1 (Pool5MinuteDatas ctx' (Pool.id' pool @ ''-'' @ show_int (block_timestamp ev div 300)))
           = Some ((case Pool5MinuteDatas ctx (Pool.id' pool @ ''-'' @ show_int (block_timestamp ev div 300)) of
                      None \<Rightarrow> 0 | Some b \<Rightarrow> PoolIntervalData.fees1 b) + DonateEvent.amount1 ev)"
  using assms
  by (auto simp add: Donate_handler_def Let_def bnd_def split_beta updatePool5MinuteData_bucket
        updatePool5MinuteData_def split: option.splits)

lemmas sample_rows =
  sample_context_def sample_pool_def sample_token_def sample_donate_def sample_swap_def
  sample_modify_def eventPoolId_def zeroAddress_def

text \<open>
  C7: every fee-growth update is total. With a zero liquidity denominator
  updateFeeGrowth returns the global accumulator unchanged, and it returns a value for
  every input; the Donate handler returns for every event and store; a Swap handler
  failure is always the failure of the tick scan, never of a fee-growth update.
\<close>

theorem fee_growth_updates_total:
  "updateFeeGrowth g fees 0 = Inr g
   \<and> (\<exists>v. updateFeeGrowth g fees L = Inr v)
   \<and> (\<exists>c. Donate_handler dev ctx = Inr c)
   \<and> (Swap_handler sev ctx = Inl e \<longrightarrow>
        (\<exists>pool. Pools ctx (eventPoolId sev) = Some pool
           \<and> getInitializedTicksCrossed (eventPoolId sev) (orZero (Pool.tick pool))
                (SwapEvent.tick sev) (Pool.tickSpacing pool) (Ticks ctx) = Inl e))"
  using Donate_handler_returns [of dev ctx] Swap_handler_failure [of sev ctx e]
  by (simp add: updateFeeGrowth_value)

lemma sample_swap_zero_spacing_fails:
  "Swap_handler (sample_swap 25) (sample_context (sample_pool\<lparr> Pool.tickSpacing := 0 \<rparr>))
     = Inl RangeError"
  by (simp add: Swap_handler_def Let_def bnd_def updateFeeGrowth_value sample_rows eval_ids
        orZero_def getInitializedTicksCrossed_def bigint_rem_def)

theorem fee_growth_updates_total_witness:
  "updateFeeGrowth 7 3000 0 = Inr 7
   \<and> (\<exists>v. updateFeeGrowth 7 3000 1000 = Inr v)
   \<and> (\<exists>c. Donate_handler sample_donate
              (sample_context (sample_pool\<lparr> Pool.tickSpacing := 0 \<rparr>)) = Inr c)
   \<and> Swap_handler (sample_swap 25) (sample_context (sample_pool\<lparr> Pool.tickSpacing := 0 \<rparr>))
       = Inl RangeError
   \<and> (\<exists>pool. Pools (sample_context (sample_pool\<lparr> Pool.tickSpacing := 0 \<rparr>))
                 (eventPoolId (sample_swap 25)) = Some pool
         \<and> getInitializedTicksCrossed (eventPoolId (sample_swap 25)) (orZero (Pool.tick pool))
              (SwapEvent.tick (sample_swap 25)) (Pool.tickSpacing pool)
              (Ticks (sample_context (sample_pool\<lparr> Pool.tickSpacing := 0 \<rparr>)))
            = Inl RangeError)"
  using fee_growth_updates_total
          [of 7 3000 1000 sample_donate "sample_context (sample_pool\<lparr> Pool.tickSpacing := 0 \<rparr>)"
              "sample_swap 25" RangeError]
        sample_swap_zero_spacing_fails
  by simp

text \<open>
  C8: a Donate event on an existing pool (its tokens known, the pool stored under its
  id) with pool.liquidity = 0 increases pool.tvl0 and pool.tvl1 by amount0 and amount1
  and leaves feeGrowthGlobal0X128, feeGrowthGlobal1X128, fees0 and fees1 unchanged.
\<close>

theorem Donate_zero_liquidity_tvl_only:
  assumes "Pools ctx (eventPoolId ev) = Some pool"
    and "Pool.id' pool = eventPoolId ev"
    and "Tokens ctx (Pool.token0_id pool) = Some token0"
    and "Tokens ctx (Pool.token1_id pool) = Some token1"
    and "Pool.liquidity pool = 0"
  shows "\<exists>ctx' pool'. Donate_handler ev ctx = Inr ctx'
           \<and> Pools ctx' (eventPoolId ev) = Some pool'
           \<and> Pool.tvl0 pool' = Pool.tvl0 pool + DonateEvent.amount0 ev
           \<and> Pool.tvl1 pool' = Pool.tvl1 pool + DonateEvent.amount1 ev
           \<and> Pool.feeGrowthGlobal0X128 pool' = Pool.feeGrowthGlobal0X128 pool
           \<and> Pool.feeGrowthGlobal1X128 pool' = Pool.feeGrowthGlobal1X128 pool
           \<and> Pool.fees0 pool' = Pool.fees0 pool
           \<and> Pool.fees1 pool' = Pool.fees1 pool"
proof -
  obtain ctx' where r: "Donate_handler ev ctx = Inr ctx'"
    using Donate_handler_returns by blast
  show ?thesis
    using r assms(2) Donate_zero_liquidity_pool [OF assms(1,3,4,5) r] by simp
qed

theorem Donate_zero_liquidity_tvl_only_witness:
  "\<exists>ctx' pool'.
      Donate_handler sample_donate (sample_context (sample_pool\<lparr> Pool.liquidity := 0 \<rparr>)) = Inr ctx'
      \<and> Pools ctx' sample_poolId = Some pool'
      \<and> Pool.tvl0 pool' = 100 \<and> Pool.tvl1 pool' = 0
      \<and> Pool.feeGrowthGlobal0X128 pool' = 0 \<and> Pool.feeGrowthGlobal1X128 pool' = 0
      \<and> Pool.fees0 pool' = 0 \<and> Pool.fees1 pool' = 0"
  using Donate_zero_liquidity_tvl_only
          [of "sample_context (sample_pool\<lparr> Pool.liquidity := 0 \<rparr>)" sample_donate
              "sample_pool\<lparr> Pool.liquidity := 0 \<rparr>"
              "sample_token ''1_0x01'' ''AAA''" "sample_token ''1_0x02'' ''BBB''"]
  by (simp add: sample_rows eval_ids)

text \<open>
  C10: for a Donate event on an existing pool with pool.liquidity = 0, the fees0 and
  fees1 of the pool's day, hour and 5-minute buckets still increase by amount0 and
  amount1 (from 0 for a fresh bucket), while the pool's own fees0, fees1 and fee-growth
  accumulators stay unchanged; the bucket sums can so exceed the pool's counters.
\<close>

theorem Donate_zero_liquidity_interval_fees:
  assumes "Pools ctx (eventPoolId ev) = Some pool"
    and "Pool.id' pool = eventPoolId ev"
    and "Tokens ctx (Pool.token0_id pool) = Some token0"
    and "Tokens ctx (Pool.token1_id pool) = Some token1"
    and "Pool.liquidity pool = 0"
    and "\<forall>b. PoolDayDatas ctx (Pool.id' pool @ ''-'' @ show_int (block_timestamp ev div 86400)) = Some b
           \<longrightarrow> PoolIntervalData.id' b = Pool.id' pool @ ''-'' @ show_int (block_timestamp ev div 86400)"
    and "\<forall>b. PoolHourDatas ctx (Pool.id' pool @ ''-'' @ show_int (block_timestamp ev div 3600)) = Some b
           \<longrightarrow> PoolIntervalData.id' b = Pool.id' pool @ ''-'' @ show_int (block_timestamp ev div 3600)"
    and "\<forall>b. Pool5MinuteDatas ctx (Pool.id' pool @ ''-'' @ show_int (block_timestamp ev div 300)) = Some b
           \<longrightarrow> PoolIntervalData.id' b = Pool.id' pool @ ''-'' @ show_int (block_timestamp ev div 300)"
  shows "\<exists>ctx' pool' day hour five.
           Donate_handler ev ctx = Inr ctx'
           \<and> PoolDayDatas ctx' (Pool.id' pool @ ''-'' @ show_int (block_timestamp ev div 86400)) = Some day
           \<and> PoolIntervalData.fees0 day =
               (case PoolDayDatas ctx (Pool.id' pool @ ''-'' @ show_int (block_timestamp ev div 86400)) of
                  None \<Rightarrow> 0 | Some b \<Rightarrow> PoolIntervalData.fees0 b) + DonateEvent.amount0 ev
           \<and> PoolIntervalData.fees1 day =
               (case PoolDayDatas ctx (Pool.id' pool @ ''-'' @ show_int (block_timestamp ev div 86400)) of
                  None \<Rightarrow> 0 | Some b \<Rightarrow> PoolIntervalData.fees1 b) + DonateEvent.amount1 ev
           \<and> PoolHourDatas ctx' (Pool.id' pool @ ''-'' @ show_int (block_timestamp ev div 3600)) = Some hour
           \<and> PoolIntervalData.fees0 hour =
               (case PoolHourDatas ctx (Pool.id' pool @ ''-'' @ show_int (block_timestamp ev div 3600)) of
                  None \<Rightarrow> 0 | Some b \<Rightarrow> PoolIntervalData.fees0 b) + DonateEvent.amount0 ev
           \<and> PoolIntervalData.fees1 hour =
               (case PoolHourDatas ctx (Pool.id' pool @ ''-'' @ show_int (block_timestamp ev div 3600)) of
                  None \<Rightarrow> 0 | Some b \<Rightarrow> PoolIntervalData.fees1 b) + DonateEvent.amount1 ev
           \<and> Pool5MinuteDatas ctx' (Pool.id' pool @ ''-'' @ show_int (block_timestamp ev div 300)) = Some five
           \<and> PoolIntervalData.fees0 five =
               (case Pool5MinuteDatas ctx (Pool.id' pool @ ''-'' @ show_int (block_timestamp ev div 300)) of
                  None \<Rightarrow> 0 | Some b \<Rightarrow> PoolIntervalData.fees0 b) + DonateEvent.amount0 ev
           \<and> PoolIntervalData.fees1 five =
               (case Pool5MinuteDatas ctx (Pool.id' pool @ ''-'' @ show_int (block_timestamp ev div 300)) of
                  None \<Rightarrow> 0 | Some b \<Rightarrow> PoolIntervalData.fees1 b) + DonateEvent.amount1 ev
           \<and> Pools ctx' (eventPoolId ev) = Some pool'
           \<and> Pool.fees0 pool' = Pool.fees0 pool
           \<and> Pool.fees1 pool' = Pool.fees1 pool
           \<and> Pool.feeGrowthGlobal0X128 pool' = Pool.feeGrowthGlobal0X128 pool
           \<and> Pool.feeGrowthGlobal1X128 pool' = Pool.feeGrowthGlobal1X128 pool"
proof -
  obtain ctx' where r: "Donate_handler ev ctx = Inr ctx'"
    using Donate_handler_returns by blast
  note base = assms(1,3,4,5)
  obtain day where day: "PoolDayDatas ctx' (Pool.id' pool @ ''-'' @ show_int (block_timestamp ev div 86400)) = Some day"
    using Donate_zero_liquidity_day(1) [OF base assms(6) r] by (auto simp: map_option_case split: option.splits)
  obtain hour where hour: "PoolHourDatas ctx' (Pool.id' pool @ ''-'' @ show_int (block_timestamp ev div 3600)) = Some hour"
    using Donate_zero_liquidity_hour(1) [OF base assms(7) r] by (auto simp: map_option_case split: option.splits)
  obtain five where five: "Pool5MinuteDatas ctx' (Pool.id' pool @ ''-'' @ show_int (block_timestamp ev div 300)) = Some five"
    using Donate_zero_liquidity_five(1) [OF base assms(8) r] by (auto simp: map_option_case split: option.splits)
  have d: "PoolIntervalData.fees0 day =
             (case PoolDayDatas ctx (Pool.id' pool @ ''-'' @ show_int (block_timestamp ev div 86400)) of
                None \<Rightarrow> 0 | Some b \<Rightarrow> PoolIntervalData.fees0 b) + DonateEvent.amount0 ev"
          "PoolIntervalData.fees1 day =
             (case PoolDayDatas ctx (Pool.id' pool @ ''-'' @ show_int (block_timestamp ev div 86400)) of
                None \<Rightarrow> 0 | Some b \<Rightarrow> PoolIntervalData.fees1 b) + DonateEvent.amount1 ev"
    using Donate_zero_liquidity_day [OF base assms(6) r] day by simp_all
  have h: "PoolIntervalData.fees0 hour =
             (case PoolHourDatas ctx (Pool.id' pool @ ''-'' @ show_int (block_timestamp ev div 3600)) of
                None \<Rightarrow> 0 | Some b \<Rightarrow> PoolIntervalData.fees0 b) + DonateEvent.amount0 ev"
          "PoolIntervalData.fees1 hour =
             (case PoolHourDatas ctx (Pool.id' pool @ ''-'' @ show_int (block_timestamp ev div 3600)) of
                None \<Rightarrow> 0 | Some b \<Rightarrow> PoolIntervalData.fees1 b) + DonateEvent.amount1 ev"
    using Donate_zero_liquidity_hour [OF base assms(7) r] hour by simp_all
  have f: "PoolIntervalData.fees0 five =
             (case Pool5MinuteDatas ctx (Pool.id' pool @ ''-'' @ show_int (block_timestamp ev div 300)) of
                None \<Rightarrow> 0 | Some b \<Rightarrow> PoolIntervalData.fees0 b) + DonateEvent.amount0 ev"
          "PoolIntervalData.fees1 five =
             (case Pool5MinuteDatas ctx (Pool.id' pool @ ''-'' @ show_int (block_timestamp ev div 300)) of
                None \<Rightarrow> 0 | Some b \<Rightarrow> PoolIntervalData.fees1 b) + DonateEvent.amount1 ev"
    using Donate_zero_liquidity_five [OF base assms(8) r] five by simp_all
  have p: "Pools ctx' (eventPoolId ev) =
             Some (pool\<lparr> Pool.tvl0 := Pool.tvl0 pool + DonateEvent.amount0 ev,
                         Pool.tvl1 := Pool.tvl1 pool + DonateEvent.amount1 ev,
                         Pool.txCount := Pool.txCount pool + 1 \<rparr>)"
    using assms(2) Donate_zero_liquidity_pool [OF base r] by simp
  show ?thesis
    using r day hour five d h f p by simp
qed

theorem Donate_zero_liquidity_interval_fees_witness:
  "\<exists>ctx' pool' day hour five.
      Donate_handler sample_donate (sample_context (sample_pool\<lparr> Pool.liquidity := 0 \<rparr>)) = Inr ctx'
      \<and> PoolDayDatas ctx' ''1_0xaa-19675'' = Some day \<and> PoolIntervalData.fees0 day = 100
      \<and> PoolHourDatas ctx' ''1_0xaa-472222'' = Some hour \<and> PoolIntervalData.fees0 hour = 100
      \<and> Pool5MinuteDatas ctx' ''1_0xaa-5666666'' = Some five \<and> PoolIntervalData.fees0 five = 100
      \<and> Pools ctx' sample_poolId = Some pool' \<and> Pool.fees0 pool' = 0
      \<and> Pool.fees0 pool' < PoolIntervalData.fees0 day"
  using Donate_zero_liquidity_interval_fees
          [of "sample_context (sample_pool\<lparr> Pool.liquidity := 0 \<rparr>)" sample_donate
              "sample_pool\<lparr> Pool.liquidity := 0 \<rparr>"
              "sample_token ''1_0x01'' ''AAA''" "sample_token ''1_0x02'' ''BBB''"]
  by (simp add: sample_rows eval_ids) fastforce

end
